theory Spec2Isabelle
  imports Complex_Main "HOL-Library.Sublist" "HOL-Library.Log_Nat"
begin

section \<open>Data model (frontend/src/types/index.ts)\<close>

text \<open>
  A JavaScript number is an IEEE 754 double. Every finite double is a rational, so
  \<open>number\<close> is the type of rationals, and the numbers held in the state are those
  rationals that are doubles. \<open>double\<close> rounds a rational to the nearest double, ties to
  the even significand: for a normal number with \<open>2 ^ e \<le> |x| < 2 ^ (e + 1)\<close> the
  doubles are the multiples of \<open>2 ^ (e - 52)\<close>, and below \<open>2 ^ -1022\<close> they are the
  multiples of \<open>2 ^ -1074\<close>. It gives the value of a decimal literal and the result of
  an arithmetic operation on doubles from the exact result. The functions below copy
  and compare numbers; the only arithmetic is the difference taken by the balance check
  of Step 3. \<open>Infinity\<close> and \<open>NaN\<close> are not represented: a difference of two finite doubles
  beyond the largest double is \<open>Infinity\<close> in the source and the rounded rational here,
  and both are not below 0.01.

  \<open>null\<close> and \<open>undefined\<close> are \<open>None\<close>. A \<open>Record<string, T>\<close> is the map from the keys
  of its own properties to their values.
\<close>

type_synonym number = rat

definition pow2 :: "int \<Rightarrow> rat" where
  "pow2 k = (if 0 \<le> k then 2 ^ nat k else 1 / 2 ^ nat (- k))"

text \<open>The binary exponent of a positive rational: the \<open>e\<close> with \<open>2 ^ e \<le> x < 2 ^ (e + 1)\<close>.\<close>

definition exponent :: "rat \<Rightarrow> int" where
  "exponent x =
     (if 1 \<le> x then int (floorlog 2 (nat \<lfloor>x\<rfloor>)) - 1
      else - int (floorlog 2 (nat (\<lceil>1 / x\<rceil> - 1))))"

definition roundHalfEven :: "rat \<Rightarrow> int" where
  "roundHalfEven n =
     (let f = \<lfloor>n\<rfloor>; r = n - of_int f
      in if r < 1 / 2 then f
         else if 1 / 2 < r then f + 1
         else if even f then f else f + 1)"

definition double :: "rat \<Rightarrow> number" where
  "double x =
     (if x = 0 then 0
      else (let e = max (exponent \<bar>x\<bar>) (- 1022);
                q = pow2 (e - 52)
            in sgn x * of_int (roundHalfEven (\<bar>x\<bar> / q)) * q))"

datatype CorrectionTag = one_off_error | company_specific | general_fix

text \<open>
  \<open>CorrectionData\<close> is the source's \<open>Omit<Correction, 'timestamp'>\<close>; \<open>Correction\<close>
  extends it with the timestamp.
\<close>

record CorrectionData =
  fieldName :: string
  originalValue :: number
  correctedValue :: number
  reasoning :: "string option"
  tag :: CorrectionTag

record Correction = CorrectionData +
  timestamp :: string

record Layer1Result =
  lineItems :: "string \<rightharpoonup> number"
  sourceScaling :: string
  columnIdentified :: string

datatype CheckStatus = PASS | FAIL

record ValidationCheck =
  checkName :: string
  status :: CheckStatus
  details :: string

text \<open>
  The fields \<open>values\<close> and \<open>reasoning\<close> of the source's \<open>Layer2Result\<close> are called
  \<open>l2values\<close> and \<open>l2reasoning\<close> here (the first is a reserved word, the second is
  also a field of \<open>Correction\<close>).
\<close>

record Layer2Result =
  statementType :: string
  l2values :: "string \<rightharpoonup> number option"
  l2reasoning :: "string \<rightharpoonup> string"
  validation :: "string \<rightharpoonup> ValidationCheck"
  flaggedFields :: "string list"
  fieldValidations :: "string \<rightharpoonup> string list"

text \<open>The field \<open>fields\<close> of the source's \<open>TemplateSection\<close> is called \<open>sectionFields\<close>.\<close>

record TemplateSection =
  header :: "string option"
  sectionFields :: "string list"

datatype WizardStep = Step1 | Step2 | Step3

text \<open>The browser's \<open>File\<close> object is represented by its name.\<close>

type_synonym File = string

record WizardState =
  companyName :: string
  companyId :: "int option"
  reportingPeriod :: string
  sessionId :: "string option"
  uploadedFile :: "File option"
  sheetNames :: "string list"
  workbookUrl :: "string option"
  layer1Results :: "string \<rightharpoonup> Layer1Result"
  step1Approved :: bool
  layer2Results :: "string \<rightharpoonup> Layer2Result"
  corrections :: "Correction list"
  step2Approved :: bool
  currentStep :: WizardStep
  activeSheetTab :: string
  selectedCell :: "string option"
  sidePanelOpen :: bool

section \<open>The wizard state and its updates (frontend/src/hooks/useWizardState.ts)\<close>

definition defaultState :: WizardState where
  "defaultState =
     \<lparr> companyName = '''', companyId = None, reportingPeriod = '''', sessionId = None,
       uploadedFile = None, sheetNames = [], workbookUrl = None,
       layer1Results = Map.empty, step1Approved = False,
       layer2Results = Map.empty, corrections = [], step2Approved = False,
       currentStep = Step1, activeSheetTab = '''', selectedCell = None,
       sidePanelOpen = False \<rparr>"

text \<open>\<open>Array.prototype.findIndex\<close>: the index of the first match, \<open>-1\<close> when there is none.\<close>

fun findIndex :: "('a \<Rightarrow> bool) \<Rightarrow> 'a list \<Rightarrow> int" where
  "findIndex p [] = -1"
| "findIndex p (x # xs) =
     (if p x then 0
      else (let r = findIndex p xs in if r < 0 then -1 else r + 1))"

text \<open>
  Each update is the function that the source passes to \<open>setState\<close>: from the previous
  state to the next one.
\<close>

definition addCorrection :: "Correction \<Rightarrow> WizardState \<Rightarrow> WizardState" where
  "addCorrection correction s =
     (let existing = findIndex (\<lambda>c. fieldName c = fieldName correction) (corrections s)
      in if existing \<ge> 0
         then (let updated = (corrections s)[nat existing := correction]
               in s\<lparr>corrections := updated\<rparr>)
         else s\<lparr>corrections := corrections s @ [correction]\<rparr>)"

definition removeCorrection :: "string \<Rightarrow> WizardState \<Rightarrow> WizardState" where
  "removeCorrection fname s =
     s\<lparr>corrections := filter (\<lambda>c. fieldName c \<noteq> fname) (corrections s)\<rparr>"

definition setCompanyName :: "string \<Rightarrow> WizardState \<Rightarrow> WizardState" where
  "setCompanyName name s = s\<lparr>companyName := name\<rparr>"

definition setCompanyId :: "int option \<Rightarrow> WizardState \<Rightarrow> WizardState" where
  "setCompanyId cid s = s\<lparr>companyId := cid\<rparr>"

definition setReportingPeriod :: "string \<Rightarrow> WizardState \<Rightarrow> WizardState" where
  "setReportingPeriod period s = s\<lparr>reportingPeriod := period\<rparr>"

definition setSessionId :: "string option \<Rightarrow> WizardState \<Rightarrow> WizardState" where
  "setSessionId sid s = s\<lparr>sessionId := sid\<rparr>"

definition setUploadedFile :: "File option \<Rightarrow> WizardState \<Rightarrow> WizardState" where
  "setUploadedFile file s = s\<lparr>uploadedFile := file\<rparr>"

definition setSheetNames :: "string list \<Rightarrow> WizardState \<Rightarrow> WizardState" where
  "setSheetNames names s =
     s\<lparr>sheetNames := names,
       activeSheetTab := (case names of [] \<Rightarrow> '''' | n # _ \<Rightarrow> n)\<rparr>"

definition setWorkbookUrl :: "string option \<Rightarrow> WizardState \<Rightarrow> WizardState" where
  "setWorkbookUrl url s = s\<lparr>workbookUrl := url\<rparr>"

definition setLayer1Results :: "(string \<rightharpoonup> Layer1Result) \<Rightarrow> WizardState \<Rightarrow> WizardState" where
  "setLayer1Results results s = s\<lparr>layer1Results := results\<rparr>"

definition approveStep1 :: "WizardState \<Rightarrow> WizardState" where
  "approveStep1 s = s\<lparr>step1Approved := True, currentStep := Step2\<rparr>"

definition setLayer2Results :: "(string \<rightharpoonup> Layer2Result) \<Rightarrow> WizardState \<Rightarrow> WizardState" where
  "setLayer2Results results s = s\<lparr>layer2Results := results\<rparr>"

definition approveStep2 :: "WizardState \<Rightarrow> WizardState" where
  "approveStep2 s =
     s\<lparr>step2Approved := True, currentStep := Step3, sidePanelOpen := False,
       selectedCell := None\<rparr>"

definition backToStep1 :: "WizardState \<Rightarrow> WizardState" where
  "backToStep1 s =
     s\<lparr>currentStep := Step1, step1Approved := False, layer2Results := Map.empty,
       corrections := [], step2Approved := False, sidePanelOpen := False,
       selectedCell := None\<rparr>"

definition backToStep2 :: "WizardState \<Rightarrow> WizardState" where
  "backToStep2 s = s\<lparr>currentStep := Step2, step2Approved := False\<rparr>"

definition setActiveSheetTab :: "string \<Rightarrow> WizardState \<Rightarrow> WizardState" where
  "setActiveSheetTab tab s = s\<lparr>activeSheetTab := tab\<rparr>"

definition setSelectedCell :: "string option \<Rightarrow> WizardState \<Rightarrow> WizardState" where
  "setSelectedCell cell s = s\<lparr>selectedCell := cell, sidePanelOpen := (cell \<noteq> None)\<rparr>"

definition setSidePanelOpen :: "bool \<Rightarrow> WizardState \<Rightarrow> WizardState" where
  "setSidePanelOpen opn s =
     s\<lparr>sidePanelOpen := opn, selectedCell := (if opn then selectedCell s else None)\<rparr>"

definition resetWizard :: "WizardState \<Rightarrow> WizardState" where
  "resetWizard s = defaultState"

text \<open>
  \<open>loadMockStep2\<close> installs the two mock Layer 2 results of \<open>mocks/mockData\<close>; they
  are parameters here (\<open>mockIS\<close>, \<open>mockBS\<close>), since nothing below depends on their
  contents.
\<close>

definition loadMockStep2 :: "Layer2Result \<Rightarrow> Layer2Result \<Rightarrow> WizardState \<Rightarrow> WizardState" where
  "loadMockStep2 mockIS mockBS s =
     \<lparr> companyName = ''Acme Portfolio Co.'', companyId = None,
       reportingPeriod = ''March 2024'', sessionId = Some ''mock-session-001'',
       uploadedFile = None, sheetNames = [''Income Statement'', ''Balance Sheet''],
       workbookUrl = None, layer1Results = Map.empty, step1Approved = True,
       layer2Results = [''income_statement'' \<mapsto> mockIS, ''balance_sheet'' \<mapsto> mockBS],
       corrections = [], step2Approved = False, currentStep = Step2,
       activeSheetTab = ''Income Statement'', selectedCell = None,
       sidePanelOpen = False \<rparr>"

text \<open>
  The operations that the context offers to the components, as a datatype, and a run
  of the wizard as the list of operations performed since the provider was mounted.
\<close>

datatype WizardAction =
    SetCompanyName string
  | SetCompanyId "int option"
  | SetReportingPeriod string
  | SetSessionId "string option"
  | SetUploadedFile "File option"
  | SetSheetNames "string list"
  | SetWorkbookUrl "string option"
  | SetLayer1Results "string \<rightharpoonup> Layer1Result"
  | ApproveStep1
  | SetLayer2Results "string \<rightharpoonup> Layer2Result"
  | AddCorrection Correction
  | RemoveCorrection string
  | ApproveStep2
  | BackToStep1
  | BackToStep2
  | SetActiveSheetTab string
  | SetSelectedCell "string option"
  | SetSidePanelOpen bool
  | ResetWizard
  | LoadMockStep2

fun dispatch :: "Layer2Result \<times> Layer2Result \<Rightarrow> WizardAction \<Rightarrow> WizardState \<Rightarrow> WizardState" where
  "dispatch m (SetCompanyName name) s = setCompanyName name s"
| "dispatch m (SetCompanyId cid) s = setCompanyId cid s"
| "dispatch m (SetReportingPeriod period) s = setReportingPeriod period s"
| "dispatch m (SetSessionId sid) s = setSessionId sid s"
| "dispatch m (SetUploadedFile file) s = setUploadedFile file s"
| "dispatch m (SetSheetNames names) s = setSheetNames names s"
| "dispatch m (SetWorkbookUrl url) s = setWorkbookUrl url s"
| "dispatch m (SetLayer1Results results) s = setLayer1Results results s"
| "dispatch m ApproveStep1 s = approveStep1 s"
| "dispatch m (SetLayer2Results results) s = setLayer2Results results s"
| "dispatch m (AddCorrection c) s = addCorrection c s"
| "dispatch m (RemoveCorrection fname) s = removeCorrection fname s"
| "dispatch m ApproveStep2 s = approveStep2 s"
| "dispatch m BackToStep1 s = backToStep1 s"
| "dispatch m BackToStep2 s = backToStep2 s"
| "dispatch m (SetActiveSheetTab tab) s = setActiveSheetTab tab s"
| "dispatch m (SetSelectedCell cell) s = setSelectedCell cell s"
| "dispatch m (SetSidePanelOpen opn) s = setSidePanelOpen opn s"
| "dispatch m ResetWizard s = resetWizard s"
| "dispatch m LoadMockStep2 s = loadMockStep2 (fst m) (snd m) s"

definition run :: "Layer2Result \<times> Layer2Result \<Rightarrow> WizardAction list \<Rightarrow> WizardState" where
  "run m acts = foldl (\<lambda>s a. dispatch m a s) defaultState acts"

section \<open>Saving a correction in Step 2 (frontend/src/components/wizard/Step2Classify.tsx)\<close>

datatype StatusType = success | error | info

record StatusMessage =
  statusType :: StatusType
  message :: string

text \<open>
  The outcome of the awaited \<open>saveCorrection\<close> request: the promise resolves, or it is
  rejected with a message (\<open>handleResponse\<close> throws on any response that is not ok).
\<close>

datatype ApiOutcome = Resolved | Rejected string

text \<open>
  \<open>handleSaveCorrection\<close> stamps the correction with the current time (\<open>now\<close>, the
  value of \<open>new Date().toISOString()\<close>), adds it to the wizard state, awaits the
  request inside \<open>try\<close>/\<open>catch\<close> with an empty handler, and sets the status banner.
  The result is the next wizard state and the banner.
\<close>

text \<open>The object spread \<open>{ ...correctionData, timestamp }\<close>.\<close>

definition withTimestamp :: "CorrectionData \<Rightarrow> string \<Rightarrow> Correction" where
  "withTimestamp correctionData ts =
     \<lparr> fieldName = fieldName correctionData,
       originalValue = originalValue correctionData,
       correctedValue = correctedValue correctionData,
       reasoning = reasoning correctionData,
       tag = tag correctionData,
       timestamp = ts \<rparr>"

definition handleSaveCorrection ::
  "string \<Rightarrow> ApiOutcome \<Rightarrow> CorrectionData \<Rightarrow> WizardState \<Rightarrow> WizardState \<times> StatusMessage option" where
  "handleSaveCorrection now api correctionData s =
     (let correction = withTimestamp correctionData now;
          s1 = addCorrection correction s;
          banner = Some \<lparr> statusType = success,
                          message = ''Correction saved for '' @ [CHR 0x22] @ fieldName correctionData
                                    @ [CHR 0x22] @ ''.'' \<rparr>
      in case api of
           Resolved \<Rightarrow> (s1, banner)
         | Rejected err \<Rightarrow> (s1, banner))"

section \<open>Template (mocks/mockData, types/index.ts)\<close>

definition IS_TEMPLATE_FIELDS :: "string list" where
  "IS_TEMPLATE_FIELDS =
    [''Gross Revenue'', ''Net Revenue'', ''Total Revenue'', ''COGS'',
     ''COGS - Depreciation & Amortization'', ''Gross Profit'',
     ''Gross Profit Margin %'', ''Sales & Marketing Expenses'',
     ''Administrative Expenses'', ''Compensation & Benefits Expense'',
     ''Research & Development'', ''Rent Expense'', ''Management Fee Expense'',
     ''Other Operating Expenses'', ''Total Operating Expenses'',
     ''Net Operating Income'', ''Depreciation & Amortization'',
     ''Loss/(Gain) on Assets, Debt, FX'', ''Non-Operating Expenses'',
     ''Non-Operating Expenses - Depreciation & Amortization'',
     ''Interest Expense/(Income)'', ''Other Income'', ''Other Expenses'',
     ''Total Expense/(Income)'', ''Income (Loss) Before Taxes'', ''Taxes'',
     ''Net Income (Loss)'', ''EBIT'', ''EBITDA - Standard'',
     ''EBITDA Adjustments'', ''Adjusted EBITDA - Standard'', ''EBITDA - Reported'',
     ''Adjusted EBITDA - Reported'', ''Covenant EBITDA'',
     ''EBITDA - Standard Margin %'', ''Adjusted EBITDA - Standard Margin %'',
     ''Adjusted EBITDA - Reported Margin %'', ''Covenant EBITDA Margin %'']"

definition BS_TEMPLATE_FIELDS :: "string list" where
  "BS_TEMPLATE_FIELDS =
    [''Cash & Cash Equivalents'', ''Short Term Investments'',
     ''Accounts Receivable'', ''Inventory'', ''Prepaid Expenses'',
     ''Other Current Assets'', ''Total Current Assets'',
     ''Property, Plant & Equipment'', ''Accumulated Depreciation'',
     ''Total Fixed Assets'', ''Other Non-Current Assets'',
     ''Goodwill & Intangibles'', ''Total Non-Current Assets'', ''Total Assets'',
     ''Accounts Payable'', ''Short Term Loans'', ''Short Term Capitalized Leases'',
     ''Short Term Mortgages'', ''Short Term Debt'', ''Accrued Liabilities'',
     ''Other Current Liabilities'', ''Total Current Liabilities'',
     ''Long Term Loans'', ''Long Term Capitalized Leases'',
     ''Long Term Mortgages'', ''Long Term Debt'', ''Deferred Liabilities'',
     ''Other Non-Current Liabilities'', ''Total Non-Current Liabilities'',
     ''Total Liabilities'', ''Preferred Stock'', ''Common Stock'',
     ''Paid in Capital'', ''Other Comprehensive Income'', ''Retained Earnings'',
     ''Minority Interest'', ''Total Equity'', ''Total Liabilities and Equity'',
     ''Check'']"

record TemplateStatement =
  sections :: "TemplateSection list"
  allFields :: "string list"

text \<open>
  The fields \<open>income_statement\<close> and \<open>balance_sheet\<close> of the source's
  \<open>TemplateResponse\<close> are called \<open>template_income_statement\<close> and
  \<open>template_balance_sheet\<close>; the short names are the fields of the final values below.
\<close>

record TemplateResponse =
  template_income_statement :: TemplateStatement
  template_balance_sheet :: TemplateStatement

section \<open>Step 3: final values, flags and the balance check (Step3Finalize.tsx)\<close>

text \<open>
  The component reads \<open>layer2Results\<close> and \<open>corrections\<close> from the wizard state and the
  template from the backend (\<open>None\<close> until it has arrived, or when the request fails).
\<close>

definition isLayer2 :: "WizardState \<Rightarrow> Layer2Result option" where
  "isLayer2 s = layer2Results s ''income_statement''"

definition bsLayer2 :: "WizardState \<Rightarrow> Layer2Result option" where
  "bsLayer2 s = layer2Results s ''balance_sheet''"

definition fallbackIs :: "TemplateSection list" where
  "fallbackIs = [\<lparr> header = None, sectionFields = IS_TEMPLATE_FIELDS \<rparr>]"

definition fallbackBs :: "TemplateSection list" where
  "fallbackBs = [\<lparr> header = None, sectionFields = BS_TEMPLATE_FIELDS \<rparr>]"

definition isSections :: "TemplateResponse option \<Rightarrow> TemplateSection list" where
  "isSections template =
     (case template of
        Some t \<Rightarrow> sections (template_income_statement t)
      | None \<Rightarrow> fallbackIs)"

definition bsSections :: "TemplateResponse option \<Rightarrow> TemplateSection list" where
  "bsSections template =
     (case template of
        Some t \<Rightarrow> sections (template_balance_sheet t)
      | None \<Rightarrow> fallbackBs)"

record FinalValues =
  income_statement :: "string \<rightharpoonup> number option"
  balance_sheet :: "string \<rightharpoonup> number option"

text \<open>\<open>isLayer2?.values ?? {}\<close>, copied by the spread.\<close>

definition valuesOrEmpty :: "Layer2Result option \<Rightarrow> (string \<rightharpoonup> number option)" where
  "valuesOrEmpty layer2 = (case layer2 of Some l \<Rightarrow> l2values l | None \<Rightarrow> Map.empty)"

text \<open>The set \<open>isFieldNames\<close>: \<open>new Set(isSections.flatMap((s) => s.fields))\<close>.\<close>

definition isFieldNames :: "TemplateSection list \<Rightarrow> string set" where
  "isFieldNames secs = set (concat (map sectionFields secs))"

text \<open>
  The assignment \<open>obj[key] = v\<close> of a number to a plain object. It creates or updates
  an own property, with one exception: \<open>__proto__\<close> is an accessor of
  \<open>Object.prototype\<close>, so when the object has no own property of that name the
  assignment calls the inherited setter, which ignores a value that is neither an
  object nor \<open>null\<close>, and nothing is stored. (An object read from JSON and copied by a
  spread can have \<open>__proto__\<close> as an own property; then the assignment updates it.)
\<close>

definition storesOwn :: "(string \<rightharpoonup> 'v) \<Rightarrow> string \<Rightarrow> bool" where
  "storesOwn obj key \<longleftrightarrow> key \<noteq> ''__proto__'' \<or> obj key \<noteq> None"

definition setProperty :: "(string \<rightharpoonup> 'v) \<Rightarrow> string \<Rightarrow> 'v \<Rightarrow> (string \<rightharpoonup> 'v)" where
  "setProperty obj key v = (if storesOwn obj key then obj(key \<mapsto> v) else obj)"

text \<open>
  One pass of the \<open>for\<close> loop of \<open>buildFinalValues\<close> over a correction; the pair is
  (\<open>isValues\<close>, \<open>bsValues\<close>).
\<close>

definition applyCorrection ::
  "string set \<Rightarrow> (string \<rightharpoonup> number option) \<times> (string \<rightharpoonup> number option) \<Rightarrow> Correction
     \<Rightarrow> (string \<rightharpoonup> number option) \<times> (string \<rightharpoonup> number option)" where
  "applyCorrection names vs correction =
     (if fieldName correction \<in> names
      then (setProperty (fst vs) (fieldName correction) (Some (correctedValue correction)),
            snd vs)
      else (fst vs,
            setProperty (snd vs) (fieldName correction) (Some (correctedValue correction))))"

definition buildFinalValues :: "WizardState \<Rightarrow> TemplateResponse option \<Rightarrow> FinalValues" where
  "buildFinalValues s template =
     (let isValues = valuesOrEmpty (isLayer2 s);
          bsValues = valuesOrEmpty (bsLayer2 s);
          names = isFieldNames (isSections template);
          vs = foldl (applyCorrection names) (isValues, bsValues) (corrections s)
      in \<lparr> income_statement = fst vs, balance_sheet = snd vs \<rparr>)"

definition correctedFieldNames :: "WizardState \<Rightarrow> string set" where
  "correctedFieldNames s = set (map fieldName (corrections s))"

text \<open>
  \<open>allFlaggedFields\<close> is a \<open>Set\<close> built from the two lists of flagged fields; as a list
  without duplicates here. Only membership and the number of elements are used.
\<close>

definition flaggedOrEmpty :: "Layer2Result option \<Rightarrow> string list" where
  "flaggedOrEmpty layer2 = (case layer2 of Some l \<Rightarrow> flaggedFields l | None \<Rightarrow> [])"

definition allFlaggedFields :: "WizardState \<Rightarrow> string list" where
  "allFlaggedFields s = remdups (flaggedOrEmpty (isLayer2 s) @ flaggedOrEmpty (bsLayer2 s))"

definition flaggedRemaining :: "WizardState \<Rightarrow> nat" where
  "flaggedRemaining s =
     length (filter (\<lambda>f. f \<notin> correctedFieldNames s) (allFlaggedFields s))"

text \<open>\<open>x ?? 0\<close> on an entry of a record that may be absent or \<open>null\<close>.\<close>

definition orZero :: "number option option \<Rightarrow> number" where
  "orZero v = (case v of Some (Some x) \<Rightarrow> x | Some None \<Rightarrow> 0 | None \<Rightarrow> 0)"

definition totalAssets :: "FinalValues \<Rightarrow> number" where
  "totalAssets finalValues = orZero (balance_sheet finalValues ''Total Assets'')"

definition totalLE :: "FinalValues \<Rightarrow> number" where
  "totalLE finalValues = orZero (balance_sheet finalValues ''Total Liabilities and Equity'')"

text \<open>
  \<open>totalAssets - totalLE\<close> is a subtraction of doubles: the exact difference, rounded.
  \<open>Math.abs\<close> is exact, and the literal \<open>0.01\<close> is the double nearest to 1/100.
\<close>

definition balanceDiff :: "FinalValues \<Rightarrow> number" where
  "balanceDiff finalValues = double (totalAssets finalValues - totalLE finalValues)"

definition isBalanced :: "FinalValues \<Rightarrow> bool" where
  "isBalanced finalValues \<longleftrightarrow> \<bar>balanceDiff finalValues\<bar> < double (1 / 100)"

text \<open>
  Rows of the two tables. Optional boolean properties that a row does not set are
  \<open>False\<close> (the components only test them for truth). The property \<open>value\<close> is called
  \<open>rowValue\<close>. \<open>TableRow\<close> is the row of Step 3, \<open>DataTableRow\<close> the row of the shared
  \<open>DataTable\<close> used in Step 2.
\<close>

record RowBase =
  label :: string
  rowValue :: "string option"
  isStatementHeader :: bool
  isHeader :: bool

record TableRow = RowBase +
  rawValue :: "number option"
  isBalanceCheck :: bool
  corrected :: bool
  flagged :: bool

record DataTableRow = RowBase +
  isFlagged :: bool
  hasValidationFail :: bool
  isClickable :: bool
  isEdited :: bool

text \<open>\<open>record[field] ?? null\<close>.\<close>

definition orNull :: "number option option \<Rightarrow> number option" where
  "orNull v = (case v of Some x \<Rightarrow> x | None \<Rightarrow> None)"

text \<open>
  \<open>formatFieldValue\<close> (utils/formatters) renders a number through \<open>toLocaleString\<close> and
  \<open>toFixed\<close>; it is the parameter \<open>fmt\<close> of the row builders.
\<close>

definition headerRow3 :: "string \<Rightarrow> TableRow" where
  "headerRow3 h =
     \<lparr> label = h, rowValue = None, isStatementHeader = False, isHeader = True,
       rawValue = None, isBalanceCheck = False, corrected = False, flagged = False \<rparr>"

definition statementHeaderRow3 :: "string \<Rightarrow> TableRow" where
  "statementHeaderRow3 h =
     \<lparr> label = h, rowValue = None, isStatementHeader = True, isHeader = False,
       rawValue = None, isBalanceCheck = False, corrected = False, flagged = False \<rparr>"

text \<open>The \<open>if (section.header)\<close> test: a header that is \<open>null\<close> or empty adds no row.\<close>

definition sectionHeader3 :: "TemplateSection \<Rightarrow> TableRow list" where
  "sectionHeader3 sec =
     (case header sec of
        None \<Rightarrow> []
      | Some h \<Rightarrow> if h = [] then [] else [headerRow3 h])"

definition fieldRow3 ::
  "(string \<Rightarrow> number \<Rightarrow> string) \<Rightarrow> WizardState \<Rightarrow> (string \<rightharpoonup> number option) \<Rightarrow> string \<Rightarrow> TableRow" where
  "fieldRow3 fmt s vals field =
     (let raw = orNull (vals field);
          isCorrected = field \<in> correctedFieldNames s;
          isFlaggedNow = field \<in> set (allFlaggedFields s) \<and> \<not> isCorrected
      in \<lparr> label = field,
           rowValue = (case raw of Some v \<Rightarrow> Some (fmt field v) | None \<Rightarrow> None),
           isStatementHeader = False, isHeader = False,
           rawValue = raw, isBalanceCheck = False,
           corrected = isCorrected, flagged = isFlaggedNow \<rparr>)"

definition checkRow3 :: TableRow where
  "checkRow3 =
     \<lparr> label = ''Check'', rowValue = None, isStatementHeader = False, isHeader = False,
       rawValue = None, isBalanceCheck = True, corrected = False, flagged = False \<rparr>"

definition buildRows ::
  "(string \<Rightarrow> number \<Rightarrow> string) \<Rightarrow> WizardState \<Rightarrow> TemplateResponse option \<Rightarrow> TableRow list" where
  "buildRows fmt s template =
     (let finalValues = buildFinalValues s template
      in [statementHeaderRow3 ''Income Statement'']
         @ concat (map (\<lambda>sec. sectionHeader3 sec
                          @ map (fieldRow3 fmt s (income_statement finalValues))
                              (sectionFields sec))
                    (isSections template))
         @ [statementHeaderRow3 ''Balance Sheet'']
         @ concat (map (\<lambda>sec. sectionHeader3 sec
                          @ map (\<lambda>field. if field = ''Check'' then checkRow3
                                          else fieldRow3 fmt s (balance_sheet finalValues) field)
                              (sectionFields sec))
                    (bsSections template)))"

section \<open>Step 2: template rows (Step2Classify.tsx) and their rendering (DataTable)\<close>

definition headerRow2 :: "string \<Rightarrow> DataTableRow" where
  "headerRow2 h =
     \<lparr> label = h, rowValue = None, isStatementHeader = False, isHeader = True,
       isFlagged = False, hasValidationFail = False, isClickable = False,
       isEdited = False \<rparr>"

definition statementHeaderRow2 :: "string \<Rightarrow> DataTableRow" where
  "statementHeaderRow2 h =
     \<lparr> label = h, rowValue = None, isStatementHeader = True, isHeader = False,
       isFlagged = False, hasValidationFail = False, isClickable = False,
       isEdited = False \<rparr>"

definition sectionHeader2 :: "TemplateSection \<Rightarrow> DataTableRow list" where
  "sectionHeader2 sec =
     (case header sec of
        None \<Rightarrow> []
      | Some h \<Rightarrow> if h = [] then [] else [headerRow2 h])"

text \<open>
  \<open>layer2?.validation[checkName]?.status === 'FAIL'\<close>: false when there is no Layer 2
  result or no check of that name.
\<close>

definition checkFails :: "Layer2Result option \<Rightarrow> string \<Rightarrow> bool" where
  "checkFails layer2 name =
     (case layer2 of
        None \<Rightarrow> False
      | Some l \<Rightarrow> (case validation l name of
                     None \<Rightarrow> False
                   | Some chk \<Rightarrow> status chk = FAIL))"

definition fieldRow2 ::
  "(string \<Rightarrow> number \<Rightarrow> string) \<Rightarrow> Layer2Result option \<Rightarrow> Correction list \<Rightarrow> string \<Rightarrow> DataTableRow" where
  "fieldRow2 fmt layer2 corrs field =
     (let correction = List.find (\<lambda>c. fieldName c = field) corrs;
          raw = (case correction of
                   Some c \<Rightarrow> Some (correctedValue c)
                 | None \<Rightarrow> (case layer2 of
                               Some l \<Rightarrow> orNull (l2values l field)
                             | None \<Rightarrow> None));
          flaggedByLayer2 = (case layer2 of
                               Some l \<Rightarrow> field \<in> set (flaggedFields l)
                             | None \<Rightarrow> False);
          fieldChecks = (case layer2 of
                           Some l \<Rightarrow> (case fieldValidations l field of
                                        Some cs \<Rightarrow> cs
                                      | None \<Rightarrow> [])
                         | None \<Rightarrow> []);
          anyFail = list_ex (checkFails layer2) fieldChecks
      in \<lparr> label = field,
           rowValue = (case raw of Some v \<Rightarrow> Some (fmt field v) | None \<Rightarrow> None),
           isStatementHeader = False, isHeader = False,
           isFlagged = flaggedByLayer2, hasValidationFail = anyFail,
           isClickable = True, isEdited = (correction \<noteq> None) \<rparr>)"

definition buildTemplateRows ::
  "(string \<Rightarrow> number \<Rightarrow> string) \<Rightarrow> TemplateSection list \<Rightarrow> string \<Rightarrow> Layer2Result option
     \<Rightarrow> Correction list \<Rightarrow> string option \<Rightarrow> DataTableRow list" where
  "buildTemplateRows fmt secs statementLabel layer2 corrs selected =
     [statementHeaderRow2 statementLabel]
     @ concat (map (\<lambda>sec. sectionHeader2 sec
                      @ map (fieldRow2 fmt layer2 corrs) (sectionFields sec))
                secs)"

text \<open>The rows that Step 2 hands to \<open>DataTable\<close>.\<close>

definition templateRows ::
  "(string \<Rightarrow> number \<Rightarrow> string) \<Rightarrow> WizardState \<Rightarrow> TemplateResponse option \<Rightarrow> DataTableRow list" where
  "templateRows fmt s template =
     buildTemplateRows fmt (isSections template) ''Income Statement'' (isLayer2 s)
       (corrections s) (selectedCell s)
     @ buildTemplateRows fmt (bsSections template) ''Balance Sheet'' (bsLayer2 s)
         (corrections s) (selectedCell s)"

text \<open>
  \<open>DataTable\<close> returns early for statement headers and section headers; any other row
  shows the badge "flagged" (and the amber background) exactly when \<open>isFlagged\<close> is set,
  and the badge "edited" exactly when \<open>isEdited\<close> is set, independently of each other.
  The table of Step 3 shows "Flagged" on a row that is no header and no balance check
  exactly when \<open>flagged\<close> is set.
\<close>

definition showsFlaggedBadge2 :: "DataTableRow \<Rightarrow> bool" where
  "showsFlaggedBadge2 row \<longleftrightarrow> \<not> isStatementHeader row \<and> \<not> isHeader row \<and> isFlagged row"

definition showsEditedBadge2 :: "DataTableRow \<Rightarrow> bool" where
  "showsEditedBadge2 row \<longleftrightarrow> \<not> isStatementHeader row \<and> \<not> isHeader row \<and> isEdited row"

definition showsFlaggedBadge3 :: "TableRow \<Rightarrow> bool" where
  "showsFlaggedBadge3 row \<longleftrightarrow>
     \<not> isStatementHeader row \<and> \<not> isHeader row \<and> \<not> isBalanceCheck row \<and> flagged row"

section \<open>The correction form (components/shared/SidePanel.tsx)\<close>

text \<open>
  A string is truthy when it is neither \<open>null\<close> nor empty; \<open>if (!fieldName) return\<close>
  leaves on either.
\<close>

definition truthy :: "string option \<Rightarrow> bool" where
  "truthy v = (case v of None \<Rightarrow> False | Some x \<Rightarrow> x \<noteq> [])"

definition isAllFields :: "TemplateResponse option \<Rightarrow> string list" where
  "isAllFields template =
     (case template of
        Some t \<Rightarrow> allFields (template_income_statement t)
      | None \<Rightarrow> IS_TEMPLATE_FIELDS)"

definition selectedCellType :: "WizardState \<Rightarrow> TemplateResponse option \<Rightarrow> string option" where
  "selectedCellType s template =
     (case selectedCell s of
        None \<Rightarrow> None
      | Some cell \<Rightarrow>
          if cell = [] then None
          else if cell \<in> set (isAllFields template) then Some ''income_statement''
          else Some ''balance_sheet'')"

definition activeLayer2 :: "WizardState \<Rightarrow> TemplateResponse option \<Rightarrow> Layer2Result option" where
  "activeLayer2 s template =
     (case selectedCellType s template of
        None \<Rightarrow> None
      | Some t \<Rightarrow> layer2Results s t)"

definition currentValue :: "string option \<Rightarrow> Layer2Result option \<Rightarrow> number option" where
  "currentValue fname layer2Result =
     (case fname of
        None \<Rightarrow> None
      | Some f \<Rightarrow>
          if f = [] then None
          else (case layer2Result of
                  None \<Rightarrow> None
                | Some l \<Rightarrow> orNull (l2values l f)))"

text \<open>
  \<open>String.prototype.trim\<close>. A character is a code unit below 256 here; the white space
  and line terminators in that range are tab, line feed, vertical tab, form feed,
  carriage return, space and no-break space.
\<close>

definition isWhiteSpace :: "char \<Rightarrow> bool" where
  "isWhiteSpace ch \<longleftrightarrow>
     ch \<in> {CHR 0x09, CHR 0x0A, CHR 0x0B, CHR 0x0C, CHR 0x0D, CHR 0x20, CHR 0xA0}"

definition trim :: "string \<Rightarrow> string" where
  "trim str = rev (dropWhile isWhiteSpace (rev (dropWhile isWhiteSpace str)))"

text \<open>
  The form holds the text of the number input, the reasoning, the tag and the error
  flag of the reasoning box.
\<close>

record CorrectionForm =
  correctedValueText :: string
  correctionReasoning :: string
  formTag :: CorrectionTag
  reasoningError :: bool

text \<open>
  \<open>handleSave\<close>. \<open>parseFloat\<close> is the JavaScript built-in, a parameter here: \<open>None\<close> is
  \<open>NaN\<close>. The result is the form after the call and the argument of \<open>onSaveCorrection\<close>
  if it is called.
\<close>

definition handleSave ::
  "(string \<Rightarrow> number option) \<Rightarrow> string option \<Rightarrow> Layer2Result option \<Rightarrow> CorrectionForm
     \<Rightarrow> CorrectionForm \<times> CorrectionData option" where
  "handleSave parseFloat fname layer2Result form =
     (case fname of
        None \<Rightarrow> (form, None)
      | Some f \<Rightarrow>
          if f = [] then (form, None)
          else case parseFloat (correctedValueText form) of
                 None \<Rightarrow> (form, None)
               | Some parsed \<Rightarrow>
                   if trim (correctionReasoning form) = []
                   then (form\<lparr>reasoningError := True\<rparr>, None)
                   else (form\<lparr>reasoningError := False\<rparr>,
                         Some \<lparr> fieldName = f,
                                originalValue = (case currentValue fname layer2Result of
                                                   Some v \<Rightarrow> v | None \<Rightarrow> 0),
                                correctedValue = parsed,
                                reasoning = Some (correctionReasoning form),
                                tag = formTag form \<rparr>))"

text \<open>
  Step 2 mounts the panel with \<open>fieldName = selectedCell\<close>, \<open>layer2Result = activeLayer2\<close>
  and \<open>onSaveCorrection = handleSaveCorrection\<close>: pressing "Save Correction" runs
  \<open>handleSave\<close> and, if it calls back, \<open>handleSaveCorrection\<close>.
\<close>

definition saveCorrectionClicked ::
  "(string \<Rightarrow> number option) \<Rightarrow> string \<Rightarrow> ApiOutcome \<Rightarrow> TemplateResponse option \<Rightarrow> CorrectionForm
     \<Rightarrow> WizardState \<Rightarrow> WizardState" where
  "saveCorrectionClicked parseFloat now api template form s =
     (case snd (handleSave parseFloat (selectedCell s) (activeLayer2 s template) form) of
        None \<Rightarrow> s
      | Some correctionData \<Rightarrow> fst (handleSaveCorrection now api correctionData s))"

section \<open>Sheet type detection (Step1Upload.tsx, Step2Classify.tsx)\<close>

text \<open>
  \<open>toLowerCase\<close> on code units below 256: the letters A to Z and the accented capitals
  of Latin-1 (all of \<open>0xC0\<close> to \<open>0xDE\<close> but the multiplication sign) move up by 32.
\<close>

definition lowerChar :: "char \<Rightarrow> char" where
  "lowerChar ch =
     (let n = (of_char ch :: nat)
      in if (65 \<le> n \<and> n \<le> 90) \<or> (192 \<le> n \<and> n \<le> 222 \<and> n \<noteq> 215)
         then char_of (n + 32) else ch)"

definition toLowerCase :: "string \<Rightarrow> string" where
  "toLowerCase str = map lowerChar str"

text \<open>\<open>String.prototype.includes\<close> (\<open>includesStr\<close> here): the needle occurs at some position.\<close>

fun includesStr :: "string \<Rightarrow> string \<Rightarrow> bool" where
  "includesStr [] needle = (needle = [])"
| "includesStr (x # xs) needle = (prefix needle (x # xs) \<or> includesStr xs needle)"

text \<open>
  The two functions are both called \<open>detectSheetType\<close> in the source; the suffix names
  the file. The result is one of the strings \<open>income_statement\<close> and \<open>balance_sheet\<close>.
\<close>

definition detectSheetType_Step1 :: "string \<Rightarrow> string" where
  "detectSheetType_Step1 name =
     (let lower = toLowerCase name
      in if includesStr lower ''income'' \<or> includesStr lower ''p&l'' \<or> includesStr lower ''profit''
            \<or> includesStr lower ''pnl'' \<or> includesStr lower ''revenue''
         then ''income_statement''
         else ''income_statement'')"

text \<open>
  The regular expression \<open>/[_\- ]is$/i\<close>: the name ends with an underscore, a hyphen or a
  space followed by the letters i and s in either case. \<open>/^is$/i\<close>: the name is those two
  letters.
\<close>

definition isLetterI :: "char \<Rightarrow> bool" where
  "isLetterI ch \<longleftrightarrow> ch = CHR ''i'' \<or> ch = CHR ''I''"

definition isLetterS :: "char \<Rightarrow> bool" where
  "isLetterS ch \<longleftrightarrow> ch = CHR ''s'' \<or> ch = CHR ''S''"

definition endsWithSeparatorIS :: "string \<Rightarrow> bool" where
  "endsWithSeparatorIS name =
     (case rev name of
        c3 # c2 # c1 # _ \<Rightarrow>
          (c1 = CHR ''_'' \<or> c1 = CHR ''-'' \<or> c1 = CHR '' '') \<and> isLetterI c2 \<and> isLetterS c3
      | _ \<Rightarrow> False)"

definition isExactlyIS :: "string \<Rightarrow> bool" where
  "isExactlyIS name =
     (case name of
        [c1, c2] \<Rightarrow> isLetterI c1 \<and> isLetterS c2
      | _ \<Rightarrow> False)"

definition detectSheetType_Step2 :: "string \<Rightarrow> string" where
  "detectSheetType_Step2 name =
     (let lower = toLowerCase name
      in if includesStr lower ''income'' \<or> includesStr lower ''p&l'' \<or> includesStr lower ''p_l''
            \<or> includesStr lower ''profit'' \<or> includesStr lower ''pnl''
            \<or> includesStr lower ''revenue'' \<or> includesStr lower ''i/s''
            \<or> endsWithSeparatorIS name \<or> isExactlyIS name
         then ''income_statement''
         else ''balance_sheet'')"

section \<open>Sample inputs\<close>

text \<open>
  A small wizard state used to evaluate the definitions: the balance sheet holds one
  asset line, flagged by Layer 2, and the totals that follow from it.
\<close>

definition sample_is :: Layer2Result where
  "sample_is =
     \<lparr> statementType = ''income_statement'',
       l2values = [''Net Revenue'' \<mapsto> Some 500, ''Gross Revenue'' \<mapsto> None],
       l2reasoning = Map.empty, validation = Map.empty,
       flaggedFields = [], fieldValidations = Map.empty \<rparr>"

definition sample_bs :: Layer2Result where
  "sample_bs =
     \<lparr> statementType = ''balance_sheet'',
       l2values = [''Cash & Cash Equivalents'' \<mapsto> Some 100,
                   ''Total Current Assets'' \<mapsto> Some 100,
                   ''Total Assets'' \<mapsto> Some 100,
                   ''Total Liabilities and Equity'' \<mapsto> Some 100],
       l2reasoning = Map.empty, validation = Map.empty,
       flaggedFields = [''Cash & Cash Equivalents''], fieldValidations = Map.empty \<rparr>"

definition sample_state :: WizardState where
  "sample_state =
     defaultState\<lparr>step1Approved := True, currentStep := Step2,
       layer2Results := [''income_statement'' \<mapsto> sample_is, ''balance_sheet'' \<mapsto> sample_bs]\<rparr>"

definition cash_150 :: CorrectionData where
  "cash_150 =
     \<lparr> fieldName = ''Cash & Cash Equivalents'', originalValue = 100, correctedValue = 150,
       reasoning = Some ''bank statement'', tag = one_off_error \<rparr>"

definition cash_175 :: CorrectionData where
  "cash_175 =
     \<lparr> fieldName = ''Cash & Cash Equivalents'', originalValue = 100, correctedValue = 175,
       reasoning = Some ''restricted cash excluded'', tag = company_specific \<rparr>"

definition inventory_40 :: CorrectionData where
  "inventory_40 =
     \<lparr> fieldName = ''Inventory'', originalValue = 0, correctedValue = 40,
       reasoning = Some ''stock count'', tag = one_off_error \<rparr>"

definition sample_actions :: "WizardAction list" where
  "sample_actions =
     [LoadMockStep2,
      AddCorrection (withTimestamp inventory_40 ''2024-04-01T09:00:00.000Z''),
      AddCorrection (withTimestamp cash_150 ''2024-04-01T09:05:00.000Z''),
      RemoveCorrection ''Inventory'',
      AddCorrection (withTimestamp inventory_40 ''2024-04-01T09:10:00.000Z'')]"

text \<open>
  A balance sheet whose only entry is Total Assets of one cent (the double written
  \<open>0.01\<close>); Total Liabilities and Equity is missing.
\<close>

definition one_cent_bs :: Layer2Result where
  "one_cent_bs =
     \<lparr> statementType = ''balance_sheet'',
       l2values = [''Total Assets'' \<mapsto> Some (double (1 / 100))],
       l2reasoning = Map.empty, validation = Map.empty,
       flaggedFields = [], fieldValidations = Map.empty \<rparr>"

definition one_cent_state :: WizardState where
  "one_cent_state =
     defaultState\<lparr>step1Approved := True, step2Approved := True, currentStep := Step3,
       layer2Results := [''balance_sheet'' \<mapsto> one_cent_bs]\<rparr>"

text \<open>The sample state after the analyst has corrected the flagged cash line.\<close>

definition sample_state_corrected :: WizardState where
  "sample_state_corrected =
     fst (handleSaveCorrection ''2024-04-01T09:05:00.000Z'' Resolved cash_150 sample_state)"

text \<open>
  The sample state with the flagged cash line selected, the values of \<open>parseFloat\<close> on
  the texts used below, and three states of the correction form.
\<close>

definition sample_state_selected :: WizardState where
  "sample_state_selected = setSelectedCell (Some ''Cash & Cash Equivalents'') sample_state"

definition sample_parseFloat :: "string \<Rightarrow> number option" where
  "sample_parseFloat str =
     (if str = ''150'' then Some 150
      else if str = ''12.5'' then Some (25 / 2)
      else None)"

definition form_complete :: CorrectionForm where
  "form_complete =
     \<lparr> correctedValueText = ''150'', correctionReasoning = ''bank statement'',
       formTag = one_off_error, reasoningError = False \<rparr>"

definition form_blank_reasoning :: CorrectionForm where
  "form_blank_reasoning =
     \<lparr> correctedValueText = ''150'', correctionReasoning = [CHR 0x20, CHR 0x09, CHR 0x0A],
       formTag = one_off_error, reasoningError = False \<rparr>"

definition form_no_number :: CorrectionForm where
  "form_no_number =
     \<lparr> correctedValueText = '''', correctionReasoning = ''bank statement'',
       formTag = one_off_error, reasoningError = False \<rparr>"



text \<open>A correction of an income-statement field, and the run that adds it.\<close>

definition revenue_520 :: CorrectionData where
  "revenue_520 =
     \<lparr> fieldName = ''Net Revenue'', originalValue = 500, correctedValue = 520,
       reasoning = Some ''late invoice'', tag = one_off_error \<rparr>"

definition revenue_actions :: "WizardAction list" where
  "revenue_actions =
     [LoadMockStep2, AddCorrection (withTimestamp revenue_520 ''2024-04-01T09:40:00.000Z'')]"

text \<open>Final values with the given two totals of the balance sheet and nothing else.\<close>

definition totals :: "number \<Rightarrow> number \<Rightarrow> FinalValues" where
  "totals a l =
     \<lparr> income_statement = Map.empty,
       balance_sheet = [''Total Assets'' \<mapsto> Some a,
                        ''Total Liabilities and Equity'' \<mapsto> Some l] \<rparr>"

section \<open>Properties of the correction list\<close>

lemma findIndex_ge_minus_one: "- 1 \<le> findIndex p xs"
  by (induction xs) (auto simp: Let_def)

lemma findIndex_neg_iff: "findIndex p xs < 0 \<longleftrightarrow> (\<forall>x \<in> set xs. \<not> p x)"
  using findIndex_ge_minus_one [of p]
  by (induction xs) (auto simp: Let_def)

lemma findIndex_lt_length: "findIndex p xs < int (length xs)"
  by (induction xs) (auto simp: Let_def)

lemma findIndex_hit: "0 \<le> findIndex p xs \<Longrightarrow> p (xs ! nat (findIndex p xs))"
proof (induction xs)
  case Nil
  then show ?case by simp
next
  case (Cons x xs)
  show ?case
  proof (cases "p x")
    case True
    then show ?thesis by simp
  next
    case False
    with Cons.prems have nonneg: "0 \<le> findIndex p xs"
      by (simp add: Let_def split: if_splits)
    then have "p (xs ! nat (findIndex p xs))" by (rule Cons.IH)
    with False nonneg show ?thesis
      by (simp add: Let_def nat_add_distrib)
  qed
qed

lemma findIndex_first: "i < nat (findIndex p xs) \<Longrightarrow> \<not> p (xs ! i)"
proof (induction xs arbitrary: i)
  case Nil
  then show ?case by simp
next
  case (Cons x xs)
  show ?case
  proof (cases "p x")
    case True
    with Cons.prems show ?thesis by simp
  next
    case False
    show ?thesis
    proof (cases i)
      case 0
      with False show ?thesis by simp
    next
      case (Suc j)
      with Cons.prems False have "j < nat (findIndex p xs)"
        by (simp add: Let_def nat_add_distrib split: if_splits)
      then have "\<not> p (xs ! j)" by (rule Cons.IH)
      with Suc show ?thesis by simp
    qed
  qed
qed

text \<open>
  After an update in place at the first match, the first match is still at that index,
  provided the new element matches too.
\<close>

lemma findIndex_update_same:
  assumes "0 \<le> findIndex p xs" and "p y"
  shows "findIndex p (xs[nat (findIndex p xs) := y]) = findIndex p xs"
  using assms
proof (induction xs)
  case Nil
  then show ?case by simp
next
  case (Cons x xs)
  show ?case
  proof (cases "p x")
    case True
    with Cons.prems show ?thesis by simp
  next
    case False
    with Cons.prems have nonneg: "0 \<le> findIndex p xs"
      by (simp add: Let_def split: if_splits)
    then have IH: "findIndex p (xs[nat (findIndex p xs) := y]) = findIndex p xs"
      using Cons.IH Cons.prems(2) by simp
    have idx: "nat (findIndex p xs + 1) = Suc (nat (findIndex p xs))"
      using nonneg by (simp add: nat_add_distrib)
    show ?thesis
      using False nonneg IH by (simp add: Let_def idx)
  qed
qed

lemma findIndex_append_new:
  assumes "findIndex p xs < 0" and "p y"
  shows "findIndex p (xs @ [y]) = int (length xs)"
  using assms
  by (induction xs) (auto simp: Let_def split: if_splits)

text \<open>
  C2. Applying \<open>addCorrection\<close> twice with the same correction gives the same wizard
  state as applying it once.
\<close>

theorem addCorrection_idempotent:
  "addCorrection c (addCorrection c s) = addCorrection c s"
proof (cases "0 \<le> findIndex (\<lambda>x. fieldName x = fieldName c) (corrections s)")
  case True
  let ?p = "\<lambda>x. fieldName x = fieldName c"
  let ?i = "findIndex ?p (corrections s)"
  have once: "addCorrection c s = s\<lparr>corrections := (corrections s)[nat ?i := c]\<rparr>"
    using True by (simp add: addCorrection_def Let_def)
  have again: "findIndex ?p ((corrections s)[nat ?i := c]) = ?i"
    using True by (simp add: findIndex_update_same)
  show ?thesis
    unfolding once
    using True again by (simp add: addCorrection_def Let_def)
next
  case False
  let ?p = "\<lambda>x. fieldName x = fieldName c"
  have neg: "findIndex ?p (corrections s) < 0"
    using False by simp
  have once: "addCorrection c s = s\<lparr>corrections := corrections s @ [c]\<rparr>"
    using False by (simp add: addCorrection_def Let_def)
  have again: "findIndex ?p (corrections s @ [c]) = int (length (corrections s))"
    using neg by (simp add: findIndex_append_new)
  show ?thesis
    unfolding once
    using again by (simp add: addCorrection_def Let_def)
qed

lemma addCorrection_hit:
  "0 \<le> findIndex (\<lambda>x. fieldName x = fieldName c) (corrections s) \<Longrightarrow>
   corrections (addCorrection c s) =
     (corrections s)[nat (findIndex (\<lambda>x. fieldName x = fieldName c) (corrections s)) := c]"
  by (simp add: addCorrection_def Let_def)

lemma addCorrection_miss:
  "findIndex (\<lambda>x. fieldName x = fieldName c) (corrections s) < 0 \<Longrightarrow>
   corrections (addCorrection c s) = corrections s @ [c]"
  by (simp add: addCorrection_def Let_def)

lemma map_fieldName_update:
  assumes "0 \<le> findIndex (\<lambda>x. fieldName x = fieldName c) xs"
  shows "map fieldName (xs[nat (findIndex (\<lambda>x. fieldName x = fieldName c) xs) := c]) = map fieldName xs"
proof -
  let ?i = "nat (findIndex (\<lambda>x. fieldName x = fieldName c) xs)"
  have "fieldName (xs ! ?i) = fieldName c"
    using findIndex_hit [OF assms] .
  moreover have "?i < length xs"
    using findIndex_lt_length [of "\<lambda>x. fieldName x = fieldName c" xs] assms by simp
  ultimately show ?thesis
    by (simp add: map_update list_update_same_conv)
qed

lemma distinct_addCorrection:
  assumes "distinct (map fieldName (corrections s))"
  shows "distinct (map fieldName (corrections (addCorrection c s)))"
proof (cases "0 \<le> findIndex (\<lambda>x. fieldName x = fieldName c) (corrections s)")
  case True
  then show ?thesis
    using assms by (simp add: addCorrection_hit map_fieldName_update)
next
  case False
  then have neg: "findIndex (\<lambda>x. fieldName x = fieldName c) (corrections s) < 0" by simp
  then have "\<forall>x \<in> set (corrections s). fieldName x \<noteq> fieldName c"
    by (simp add: findIndex_neg_iff)
  then have "fieldName c \<notin> fieldName ` set (corrections s)" by auto
  with assms show ?thesis
    by (simp add: addCorrection_miss [OF neg])
qed

lemma distinct_removeCorrection:
  "distinct (map fieldName (corrections s)) \<Longrightarrow>
   distinct (map fieldName (corrections (removeCorrection f s)))"
  by (simp add: removeCorrection_def distinct_map_filter)

lemma distinct_dispatch:
  "distinct (map fieldName (corrections s)) \<Longrightarrow>
   distinct (map fieldName (corrections (dispatch m a s)))"
  by (cases a)
     (simp_all add: distinct_addCorrection distinct_removeCorrection
        setCompanyName_def setCompanyId_def setReportingPeriod_def setSessionId_def
        setUploadedFile_def setSheetNames_def setWorkbookUrl_def setLayer1Results_def
        approveStep1_def setLayer2Results_def approveStep2_def backToStep1_def
        backToStep2_def setActiveSheetTab_def setSelectedCell_def setSidePanelOpen_def
        resetWizard_def loadMockStep2_def defaultState_def)

lemma distinct_foldl_dispatch:
  "distinct (map fieldName (corrections s)) \<Longrightarrow>
   distinct (map fieldName (corrections (foldl (\<lambda>s a. dispatch m a s) s acts)))"
  by (induction acts arbitrary: s) (simp_all add: distinct_dispatch)

lemma distinct_run: "distinct (map fieldName (corrections (run m acts)))"
  unfolding run_def by (rule distinct_foldl_dispatch) (simp add: defaultState_def)

lemma findIndex_unique:
  assumes "distinct (map f xs)" and "i < length xs" and "f (xs ! i) = v"
  shows "findIndex (\<lambda>x. f x = v) xs = int i"
proof -
  let ?k = "findIndex (\<lambda>x. f x = v) xs"
  have "\<not> (\<forall>x \<in> set xs. f x \<noteq> v)"
    using assms(2,3) nth_mem by blast
  then have nonneg: "0 \<le> ?k"
    using findIndex_neg_iff [of "\<lambda>x. f x = v" xs] by auto
  have hit: "f (xs ! nat ?k) = v"
    using findIndex_hit [OF nonneg] .
  have lt: "nat ?k < length xs"
    using findIndex_lt_length [of "\<lambda>x. f x = v" xs] nonneg by simp
  have "nat ?k = i"
    using nth_eq_iff_index_eq [of "map f xs" "nat ?k" i] assms lt hit by simp
  with nonneg show ?thesis by simp
qed

section \<open>One correction per field\<close>

lemmas sample_defs =
  sample_state_def sample_is_def sample_bs_def cash_150_def cash_175_def inventory_40_def
  withTimestamp_def defaultState_def

text \<open>
  C3. In every state reached from the initial state by the operations of the wizard
  (in particular by any sequence of \<open>addCorrection\<close> and \<open>removeCorrection\<close>), the
  corrections list holds at most one entry per field name, and adding a correction for
  a field that has an entry overwrites that entry at its index.
\<close>

theorem corrections_one_per_field:
  "distinct (map fieldName (corrections (run m acts))) \<and>
   (\<forall>i < length (corrections (run m acts)).
      fieldName (corrections (run m acts) ! i) = fieldName c \<longrightarrow>
      corrections (addCorrection c (run m acts)) = (corrections (run m acts))[i := c])"
proof (intro conjI allI impI)
  show "distinct (map fieldName (corrections (run m acts)))"
    by (rule distinct_run)
next
  fix i
  assume lt: "i < length (corrections (run m acts))"
    and same: "fieldName (corrections (run m acts) ! i) = fieldName c"
  have "findIndex (\<lambda>x. fieldName x = fieldName c) (corrections (run m acts)) = int i"
    using distinct_run lt same by (rule findIndex_unique)
  then show "corrections (addCorrection c (run m acts)) = (corrections (run m acts))[i := c]"
    by (simp add: addCorrection_hit)
qed

lemma sample_run:
  "corrections (run (sample_is, sample_bs) sample_actions)
   = [withTimestamp cash_150 ''2024-04-01T09:05:00.000Z'',
      withTimestamp inventory_40 ''2024-04-01T09:10:00.000Z'']"
  by (simp add: run_def sample_actions_def loadMockStep2_def addCorrection_def
        removeCorrection_def Let_def sample_defs)

theorem corrections_one_per_field_witness:
  "0 < length (corrections (run (sample_is, sample_bs) sample_actions))
   \<and> fieldName (corrections (run (sample_is, sample_bs) sample_actions) ! 0)
       = fieldName (withTimestamp cash_175 ''2024-04-01T09:20:00.000Z'')
   \<and> distinct (map fieldName (corrections (run (sample_is, sample_bs) sample_actions)))
   \<and> corrections (addCorrection (withTimestamp cash_175 ''2024-04-01T09:20:00.000Z'')
          (run (sample_is, sample_bs) sample_actions))
       = [withTimestamp cash_175 ''2024-04-01T09:20:00.000Z'',
          withTimestamp inventory_40 ''2024-04-01T09:10:00.000Z'']"
proof -
  let ?s = "run (sample_is, sample_bs) sample_actions"
  let ?c = "withTimestamp cash_175 ''2024-04-01T09:20:00.000Z''"
  have lt: "0 < length (corrections ?s)"
    by (simp add: sample_run)
  have same: "fieldName (corrections ?s ! 0) = fieldName ?c"
    unfolding sample_run by (simp add: withTimestamp_def cash_150_def cash_175_def)
  have both: "distinct (map fieldName (corrections ?s)) \<and>
      (\<forall>i < length (corrections ?s).
        fieldName (corrections ?s ! i) = fieldName ?c \<longrightarrow>
        corrections (addCorrection ?c ?s) = (corrections ?s)[i := ?c])"
    by (rule corrections_one_per_field)
  then have "corrections (addCorrection ?c ?s) = (corrections ?s)[0 := ?c]"
    using lt same by blast
  then show ?thesis
    using lt same both by (simp add: sample_run)
qed

section \<open>What applying a correction changes\<close>

lemma find_update_first:
  assumes "0 \<le> findIndex p xs" and "p y"
  shows "List.find p (xs[nat (findIndex p xs) := y]) = Some y"
  using assms
proof (induction xs)
  case Nil
  then show ?case by simp
next
  case (Cons x xs)
  show ?case
  proof (cases "p x")
    case True
    with Cons.prems show ?thesis by simp
  next
    case False
    with Cons.prems have nonneg: "0 \<le> findIndex p xs"
      by (simp add: Let_def split: if_splits)
    have idx: "nat (findIndex p xs + 1) = Suc (nat (findIndex p xs))"
      using nonneg by (simp add: nat_add_distrib)
    show ?thesis
      using False nonneg Cons.IH [OF nonneg Cons.prems(2)] by (simp add: Let_def idx)
  qed
qed

lemma find_append_new:
  assumes "findIndex p xs < 0" and "p y"
  shows "List.find p (xs @ [y]) = Some y"
  using assms by (induction xs) (auto simp: Let_def split: if_splits)

lemma find_Some_mem: "List.find p xs = Some x \<Longrightarrow> x \<in> set xs"
  by (induction xs) (auto split: if_splits)

lemma find_addCorrection:
  "List.find (\<lambda>x. fieldName x = fieldName c) (corrections (addCorrection c s)) = Some c"
proof (cases "0 \<le> findIndex (\<lambda>x. fieldName x = fieldName c) (corrections s)")
  case True
  then show ?thesis
    by (simp add: addCorrection_hit find_update_first)
next
  case False
  then have "findIndex (\<lambda>x. fieldName x = fieldName c) (corrections s) < 0" by simp
  then show ?thesis
    by (simp add: addCorrection_miss find_append_new)
qed


lemma handleSaveCorrection_state:
  "fst (handleSaveCorrection now api d s) = addCorrection (withTimestamp d now) s"
  by (cases api) (simp_all add: handleSaveCorrection_def Let_def)






text \<open>
  C6 (as amended). No version is checked: \<open>handleSaveCorrection\<close> stores the stamped
  correction in every state, and a rejected backend request gives the same state and
  banner as an accepted one.
\<close>

theorem handleSaveCorrection_never_rejects:
  "fst (handleSaveCorrection now api d s) = addCorrection (withTimestamp d now) s
   \<and> withTimestamp d now \<in> set (corrections (fst (handleSaveCorrection now api d s)))
   \<and> handleSaveCorrection now (Rejected err) d s = handleSaveCorrection now Resolved d s"
proof -
  have "List.find (\<lambda>x. fieldName x = fieldName (withTimestamp d now))
          (corrections (addCorrection (withTimestamp d now) s)) = Some (withTimestamp d now)"
    by (rule find_addCorrection)
  then have "withTimestamp d now \<in> set (corrections (addCorrection (withTimestamp d now) s))"
    by (rule find_Some_mem)
  then show ?thesis
    by (simp add: handleSaveCorrection_state) (simp add: handleSaveCorrection_def)
qed

text \<open>
  C6 as stated fails. Two corrections of the same field are prepared against the sample
  state (both record the original value 100). After the first is saved, the second is
  stale; it is stored all the same, replacing the first, even when the backend request
  is rejected.
\<close>

theorem stale_correction_counterexample:
  "corrections (fst (handleSaveCorrection ''2024-04-01T09:05:00.000Z'' Resolved cash_150 sample_state))
     = [withTimestamp cash_150 ''2024-04-01T09:05:00.000Z'']
   \<and> corrections (fst (handleSaveCorrection ''2024-04-01T09:06:00.000Z'' (Rejected ''StaleVersion'') cash_175
        (fst (handleSaveCorrection ''2024-04-01T09:05:00.000Z'' Resolved cash_150 sample_state))))
     = [withTimestamp cash_175 ''2024-04-01T09:06:00.000Z'']"
  by (simp add: handleSaveCorrection_def addCorrection_def Let_def sample_state_def
        defaultState_def withTimestamp_def cash_150_def cash_175_def)

section \<open>Final values are the Layer 2 values with the corrections laid over them\<close>

text \<open>
  The loop of \<open>buildFinalValues\<close>, entry by entry. An entry of the income-statement map
  is the corrected value of the last correction of that field if the field is an
  income-statement field, and the Layer 2 entry otherwise; the balance-sheet map takes
  the corrections of all other fields. The exception is the key \<open>__proto__\<close> where the
  Layer 2 map does not hold it: the assignment stores nothing there.
\<close>

lemma applyCorrection_fst:
  "fst (applyCorrection N vs x) f =
     (if fieldName x = f \<and> f \<in> N \<and> storesOwn (fst vs) f
      then Some (Some (correctedValue x)) else fst vs f)"
  by (simp add: applyCorrection_def setProperty_def)

lemma applyCorrection_snd:
  "snd (applyCorrection N vs x) f =
     (if fieldName x = f \<and> f \<notin> N \<and> storesOwn (snd vs) f
      then Some (Some (correctedValue x)) else snd vs f)"
  by (simp add: applyCorrection_def setProperty_def)

text \<open>One more correction, seen at one key of one of the two maps.\<close>

lemma overlay_step:
  assumes IH: "a f = (if inN \<and> storesOwn iv f
                      then (case List.find p ys of
                              Some c \<Rightarrow> Some (Some (correctedValue c)) | None \<Rightarrow> iv f)
                      else iv f)"
  shows "(if p x \<and> inN \<and> storesOwn a f then Some (Some (correctedValue x)) else a f)
       = (if inN \<and> storesOwn iv f
          then (case List.find p (x # ys) of
                  Some c \<Rightarrow> Some (Some (correctedValue c)) | None \<Rightarrow> iv f)
          else iv f)"
proof (cases "inN \<and> storesOwn iv f")
  case True
  then have "a f = (case List.find p ys of
      Some c \<Rightarrow> Some (Some (correctedValue c)) | None \<Rightarrow> iv f)"
    using IH by simp
  then have "a f = None \<longleftrightarrow> iv f = None \<and> List.find p ys = None"
    by (cases "List.find p ys") simp_all
  moreover have "iv f = None \<Longrightarrow> f \<noteq> ''__proto__''"
    using True by (simp add: storesOwn_def)
  ultimately have "storesOwn a f"
    using True by (auto simp: storesOwn_def)
  with True IH show ?thesis by simp
next
  case False
  from IH have af: "a f = iv f" unfolding if_not_P [OF False] .
  show ?thesis
  proof (cases inN)
    case True
    with False have ns_iv: "\<not> storesOwn iv f" by simp
    then have "iv f = None" "f = ''__proto__''" by (simp_all add: storesOwn_def)
    then have ns_a: "\<not> storesOwn a f" using af by (simp add: storesOwn_def)
    show ?thesis by (simp add: ns_iv ns_a af)
  next
    case False
    then show ?thesis by (simp add: af)
  qed
qed

lemma foldl_applyCorrection_fst:
  "fst (foldl (applyCorrection N) (iv, bv) cs) f =
     (if f \<in> N \<and> storesOwn iv f
      then (case List.find (\<lambda>c. fieldName c = f) (rev cs) of
              Some c \<Rightarrow> Some (Some (correctedValue c))
            | None \<Rightarrow> iv f)
      else iv f)"
proof (induction cs rule: rev_induct)
  case Nil
  then show ?case by simp
next
  case (snoc x xs)
  have "fst (foldl (applyCorrection N) (iv, bv) (xs @ [x])) f
      = (if fieldName x = f \<and> f \<in> N
            \<and> storesOwn (fst (foldl (applyCorrection N) (iv, bv) xs)) f
         then Some (Some (correctedValue x))
         else fst (foldl (applyCorrection N) (iv, bv) xs) f)"
    by (simp only: foldl_append foldl.simps applyCorrection_fst)
  also have "\<dots> = (if f \<in> N \<and> storesOwn iv f
      then (case List.find (\<lambda>c. fieldName c = f) (x # rev xs) of
              Some c \<Rightarrow> Some (Some (correctedValue c)) | None \<Rightarrow> iv f)
      else iv f)"
    using snoc.IH by (rule overlay_step)
  finally show ?case by simp
qed

lemma foldl_applyCorrection_snd:
  "snd (foldl (applyCorrection N) (iv, bv) cs) f =
     (if f \<notin> N \<and> storesOwn bv f
      then (case List.find (\<lambda>c. fieldName c = f) (rev cs) of
              Some c \<Rightarrow> Some (Some (correctedValue c))
            | None \<Rightarrow> bv f)
      else bv f)"
proof (induction cs rule: rev_induct)
  case Nil
  then show ?case by simp
next
  case (snoc x xs)
  have "snd (foldl (applyCorrection N) (iv, bv) (xs @ [x])) f
      = (if fieldName x = f \<and> f \<notin> N
            \<and> storesOwn (snd (foldl (applyCorrection N) (iv, bv) xs)) f
         then Some (Some (correctedValue x))
         else snd (foldl (applyCorrection N) (iv, bv) xs) f)"
    by (simp only: foldl_append foldl.simps applyCorrection_snd)
  also have "\<dots> = (if f \<notin> N \<and> storesOwn bv f
      then (case List.find (\<lambda>c. fieldName c = f) (x # rev xs) of
              Some c \<Rightarrow> Some (Some (correctedValue c)) | None \<Rightarrow> bv f)
      else bv f)"
    using snoc.IH by (rule overlay_step)
  finally show ?case by simp
qed

lemma find_distinct_member:
  "distinct (map g xs) \<Longrightarrow> c \<in> set xs \<Longrightarrow> List.find (\<lambda>x. g x = g c) xs = Some c"
  by (induction xs) (auto simp: image_iff)

lemma find_absent:
  "v \<notin> g ` set xs \<Longrightarrow> List.find (\<lambda>x. g x = v) xs = None"
  by (induction xs) auto

lemma find_last_correction:
  assumes "s = run m acts" and "c \<in> set (corrections s)"
  shows "List.find (\<lambda>x. fieldName x = fieldName c) (rev (corrections s)) = Some c"
proof -
  have "distinct (map fieldName (corrections s))"
    unfolding assms(1) by (rule distinct_run)
  then have "distinct (map fieldName (rev (corrections s)))"
    by (simp add: rev_map [symmetric])
  then show ?thesis
    using assms(2) by (simp add: find_distinct_member)
qed

text \<open>
  What holds of the final values in every state of the wizard. At a field without a
  correction both maps are the Layer 2 maps.
\<close>

lemma final_values_without_correction:
  assumes "f \<notin> fieldName ` set (corrections s)"
  shows "income_statement (buildFinalValues s t) f = valuesOrEmpty (isLayer2 s) f"
    and "balance_sheet (buildFinalValues s t) f = valuesOrEmpty (bsLayer2 s) f"
proof -
  from assms have "List.find (\<lambda>x. fieldName x = f) (rev (corrections s)) = None"
    by (simp add: find_absent)
  then show "income_statement (buildFinalValues s t) f = valuesOrEmpty (isLayer2 s) f"
    and "balance_sheet (buildFinalValues s t) f = valuesOrEmpty (bsLayer2 s) f"
    by (simp_all add: buildFinalValues_def Let_def foldl_applyCorrection_fst
          foldl_applyCorrection_snd)
qed

text \<open>
  At a corrected field whose name is not \<open>__proto__\<close>, the corrected value is in the map
  chosen by the income-statement sections and the other map keeps its Layer 2 entry.
\<close>

lemma final_values_with_correction:
  assumes "s = run m acts" and "c \<in> set (corrections s)"
    and "fieldName c \<noteq> ''__proto__''"
  shows "if fieldName c \<in> isFieldNames (isSections t)
         then income_statement (buildFinalValues s t) (fieldName c)
                = Some (Some (correctedValue c))
            \<and> balance_sheet (buildFinalValues s t) (fieldName c)
                = valuesOrEmpty (bsLayer2 s) (fieldName c)
         else balance_sheet (buildFinalValues s t) (fieldName c)
                = Some (Some (correctedValue c))
            \<and> income_statement (buildFinalValues s t) (fieldName c)
                = valuesOrEmpty (isLayer2 s) (fieldName c)"
  using find_last_correction [OF assms(1,2)] assms(3)
  by (simp add: buildFinalValues_def Let_def foldl_applyCorrection_fst
        foldl_applyCorrection_snd storesOwn_def)





text \<open>
  The same run with the cash correction of the sample: the total that depends on cash
  keeps its Layer 2 value, and the corrected value is in the balance-sheet map only.
\<close>

lemma sample_run_state:
  "run (sample_is, sample_bs) sample_actions =
     (loadMockStep2 sample_is sample_bs defaultState)
       \<lparr>corrections := [withTimestamp cash_150 ''2024-04-01T09:05:00.000Z'',
                        withTimestamp inventory_40 ''2024-04-01T09:10:00.000Z'']\<rparr>"
  by (simp add: run_def sample_actions_def loadMockStep2_def addCorrection_def
        removeCorrection_def Let_def withTimestamp_def cash_150_def inventory_40_def
        defaultState_def)

lemma cash_not_income_statement_field:
  "''Cash & Cash Equivalents'' \<notin> isFieldNames (isSections None)"
  by (simp add: isFieldNames_def isSections_def fallbackIs_def IS_TEMPLATE_FIELDS_def)

lemma final_values_of_sample_run:
  "balance_sheet (buildFinalValues (run (sample_is, sample_bs) sample_actions) None)
        ''Total Assets'' = Some (Some 100)
   \<and> balance_sheet (buildFinalValues (run (sample_is, sample_bs) sample_actions) None)
        ''Cash & Cash Equivalents'' = Some (Some 150)
   \<and> income_statement (buildFinalValues (run (sample_is, sample_bs) sample_actions) None)
        ''Cash & Cash Equivalents'' = None"
proof -
  let ?s = "run (sample_is, sample_bs) sample_actions"
  let ?c = "withTimestamp cash_150 ''2024-04-01T09:05:00.000Z''"
  have absent: "''Total Assets'' \<notin> fieldName ` set (corrections ?s)"
    unfolding sample_run_state
    by (simp add: withTimestamp_def cash_150_def inventory_40_def)
  have mem: "?c \<in> set (corrections ?s)"
    unfolding sample_run_state by simp
  have name: "fieldName ?c = ''Cash & Cash Equivalents''"
    by (simp add: withTimestamp_def cash_150_def)
  have val: "correctedValue ?c = 150"
    by (simp add: withTimestamp_def cash_150_def)
  have bs: "valuesOrEmpty (bsLayer2 ?s) ''Total Assets'' = Some (Some 100)"
    unfolding sample_run_state
    by (simp add: valuesOrEmpty_def bsLayer2_def loadMockStep2_def sample_bs_def)
  have isv: "valuesOrEmpty (isLayer2 ?s) ''Cash & Cash Equivalents'' = None"
    unfolding sample_run_state
    by (simp add: valuesOrEmpty_def isLayer2_def loadMockStep2_def sample_is_def)
  have noproto: "fieldName ?c \<noteq> ''__proto__''"
    unfolding name by simp
  note total = final_values_without_correction(2) [OF absent, of None]
  note cash = final_values_with_correction [OF refl mem noproto, of None]
  from total cash show ?thesis
    using cash_not_income_statement_field
    by (simp only: name val bs isv if_False simp_thms)
qed

text \<open>
  A correction of an income-statement field goes to the income-statement map, and the
  balance-sheet map gets no entry for it.
\<close>

lemma revenue_run_state:
  "run (sample_is, sample_bs) revenue_actions =
     (loadMockStep2 sample_is sample_bs defaultState)
       \<lparr>corrections := [withTimestamp revenue_520 ''2024-04-01T09:40:00.000Z'']\<rparr>"
  by (simp add: run_def revenue_actions_def loadMockStep2_def addCorrection_def Let_def)

lemma revenue_income_statement_field:
  "''Net Revenue'' \<in> isFieldNames (isSections None)"
  by (simp add: isFieldNames_def isSections_def fallbackIs_def IS_TEMPLATE_FIELDS_def)

lemma final_values_of_revenue_run:
  "income_statement (buildFinalValues (run (sample_is, sample_bs) revenue_actions) None)
        ''Net Revenue'' = Some (Some 520)
   \<and> balance_sheet (buildFinalValues (run (sample_is, sample_bs) revenue_actions) None)
        ''Net Revenue'' = None"
proof -
  let ?s = "run (sample_is, sample_bs) revenue_actions"
  let ?c = "withTimestamp revenue_520 ''2024-04-01T09:40:00.000Z''"
  have mem: "?c \<in> set (corrections ?s)"
    unfolding revenue_run_state by simp
  have name: "fieldName ?c = ''Net Revenue''"
    by (simp add: withTimestamp_def revenue_520_def)
  have val: "correctedValue ?c = 520"
    by (simp add: withTimestamp_def revenue_520_def)
  have bsv: "valuesOrEmpty (bsLayer2 ?s) ''Net Revenue'' = None"
    unfolding revenue_run_state
    by (simp add: valuesOrEmpty_def bsLayer2_def loadMockStep2_def sample_bs_def)
  have noproto: "fieldName ?c \<noteq> ''__proto__''"
    unfolding name by simp
  note revenue = final_values_with_correction [OF refl mem noproto, of None]
  from revenue show ?thesis
    using revenue_income_statement_field
    by (simp only: name val bsv if_True simp_thms)
qed

section \<open>Rounding to a double\<close>

text \<open>The exponent found by \<open>exponent\<close> is the binary exponent.\<close>

lemma pow2_powi: "pow2 k = 2 powi k"
  by (simp add: pow2_def power_int_def inverse_eq_divide power_one_over)

lemma pow2_pos: "0 < pow2 k"
  by (simp add: pow2_powi)

lemma pow2_add: "pow2 (a + b) = pow2 a * pow2 b"
  by (simp add: pow2_powi power_int_add)

lemma pow2_strict_mono: "a < b \<Longrightarrow> pow2 a < pow2 b"
  by (simp add: pow2_powi power_int_strict_increasing)

lemma pow2_mono: "a \<le> b \<Longrightarrow> pow2 a \<le> pow2 b"
  by (simp add: pow2_powi power_int_increasing)

lemma pow2_less_cancel: "pow2 a < pow2 b \<Longrightarrow> a < b"
  using pow2_mono [of b a] by (cases "a < b") auto

lemma pow2_nat: "pow2 (int n) = 2 ^ n"
  by (simp add: pow2_def)

lemma pow2_neg_nat: "pow2 (- int n) = 1 / 2 ^ n"
  by (cases "n = 0") (simp_all add: pow2_def)

lemma exponent_bounds_ge1:
  assumes "1 \<le> x"
  shows "pow2 (exponent x) \<le> x \<and> x < pow2 (exponent x + 1)"
proof -
  let ?n = "nat \<lfloor>x\<rfloor>"
  let ?k = "floorlog 2 ?n"
  have fl: "1 \<le> \<lfloor>x\<rfloor>" using assms by simp
  then have npos: "0 < ?n" by simp
  have b: "2 ^ (?k - 1) \<le> ?n \<and> ?n < 2 ^ ?k"
    using floorlog_bounds [of ?n 2] npos by simp
  have kpos: "0 < ?k"
    using npos by (simp add: floorlog_eq_zero_iff Suc_le_eq flip: neq0_conv)
  have ex: "exponent x = int (?k - 1)"
    using assms kpos by (simp add: exponent_def of_nat_diff)
  have "0 \<le> \<lfloor>x\<rfloor>" using fl by linarith
  then have n_rat: "(of_nat ?n :: rat) = of_int \<lfloor>x\<rfloor>"
    by (rule of_nat_nat)
  have "(2::rat) ^ (?k - 1) = of_nat (2 ^ (?k - 1))" by simp
  also have "\<dots> \<le> of_nat ?n" using b by (simp only: of_nat_le_iff)
  also have "\<dots> \<le> x" unfolding n_rat by (rule of_int_floor_le)
  finally have lower: "pow2 (exponent x) \<le> x"
    unfolding ex pow2_nat .
  from b have "?n < 2 ^ ?k" ..
  then have "Suc ?n \<le> 2 ^ ?k" by (rule Suc_leI)
  then have "(of_nat (Suc ?n) :: rat) \<le> of_nat (2 ^ ?k)" by (simp only: of_nat_le_iff)
  then have "of_nat ?n + 1 \<le> (2::rat) ^ ?k" by simp
  then have "of_int \<lfloor>x\<rfloor> + 1 \<le> (2::rat) ^ ?k"
    unfolding n_rat .
  moreover have "x < of_int \<lfloor>x\<rfloor> + 1" by linarith
  ultimately have "x < (2::rat) ^ ?k" by linarith
  moreover have "exponent x + 1 = int ?k"
    using ex kpos by simp
  ultimately have upper: "x < pow2 (exponent x + 1)"
    by (simp add: pow2_nat)
  from lower upper show ?thesis ..
qed

lemma exponent_bounds_lt1:
  assumes "0 < x" and "x < 1"
  shows "pow2 (exponent x) \<le> x \<and> x < pow2 (exponent x + 1)"
proof -
  let ?y = "1 / x"
  let ?m = "nat (\<lceil>?y\<rceil> - 1)"
  let ?k = "floorlog 2 ?m"
  have y1: "1 < ?y" using assms by simp
  then have c2: "2 \<le> \<lceil>?y\<rceil>" by (simp add: less_ceiling_iff flip: zless_imp_add1_zle)
  then have mpos: "0 < ?m" by simp
  have b: "2 ^ (?k - 1) \<le> ?m \<and> ?m < 2 ^ ?k"
    using floorlog_bounds [of ?m 2] mpos by simp
  have kpos: "0 < ?k"
    using mpos by (simp add: floorlog_eq_zero_iff flip: neq0_conv)
  have ex: "exponent x = - int ?k"
    using assms by (simp add: exponent_def)
  have "0 \<le> \<lceil>?y\<rceil> - 1" using c2 by linarith
  then have "(of_nat ?m :: rat) = of_int (\<lceil>?y\<rceil> - 1)"
    by (rule of_nat_nat)
  then have m_rat: "(of_nat ?m :: rat) = of_int \<lceil>?y\<rceil> - 1"
    by (simp only: of_int_diff of_int_1)
  from b have "?m < 2 ^ ?k" ..
  then have "Suc ?m \<le> 2 ^ ?k" by (rule Suc_leI)
  then have "(of_nat (Suc ?m) :: rat) \<le> of_nat (2 ^ ?k)" by (simp only: of_nat_le_iff)
  then have "of_nat ?m + 1 \<le> (2::rat) ^ ?k" by simp
  then have "of_int \<lceil>?y\<rceil> \<le> (2::rat) ^ ?k" unfolding m_rat by simp
  moreover have "?y \<le> of_int \<lceil>?y\<rceil>" by (rule le_of_int_ceiling)
  ultimately have "?y \<le> 2 ^ ?k" by linarith
  then have "1 \<le> x * 2 ^ ?k"
    using assms by (simp add: field_simps)
  then have lower: "pow2 (exponent x) \<le> x"
    unfolding ex pow2_neg_nat by (simp add: field_simps)
  have "(2::rat) ^ (?k - 1) = of_nat (2 ^ (?k - 1))" by simp
  also have "\<dots> \<le> of_nat ?m" using b by (simp only: of_nat_le_iff)
  also have "\<dots> < ?y" unfolding m_rat using ceiling_correct [of ?y] by linarith
  finally have "x * 2 ^ (?k - 1) < 1"
    using assms by (simp add: field_simps)
  moreover have "exponent x + 1 = - int (?k - 1)"
    using ex kpos by simp
  ultimately have upper: "x < pow2 (exponent x + 1)"
    by (simp only: pow2_neg_nat) (simp add: field_simps)
  from lower upper show ?thesis ..
qed

lemma exponent_bounds:
  "0 < x \<Longrightarrow> pow2 (exponent x) \<le> x \<and> x < pow2 (exponent x + 1)"
  using exponent_bounds_ge1 [of x] exponent_bounds_lt1 [of x] by (cases "1 \<le> x") auto


lemma roundHalfEven_ge: "of_int k \<le> n \<Longrightarrow> k \<le> roundHalfEven n"
proof -
  assume "of_int k \<le> n"
  then have "k \<le> \<lfloor>n\<rfloor>" by (simp add: le_floor_iff)
  then show ?thesis by (simp add: roundHalfEven_def Let_def)
qed

lemma roundHalfEven_le: "n < of_int k \<Longrightarrow> roundHalfEven n \<le> k"
proof -
  assume "n < of_int k"
  then have "\<lfloor>n\<rfloor> < k" by (simp add: floor_less_iff)
  then show ?thesis by (simp add: roundHalfEven_def Let_def)
qed

lemma roundHalfEven_less_odd:
  assumes "odd m"
  shows "roundHalfEven n < m \<longleftrightarrow> n \<le> of_int m - 1 / 2"
proof
  assume lt: "roundHalfEven n < m"
  show "n \<le> of_int m - 1 / 2"
  proof (rule ccontr)
    assume "\<not> n \<le> of_int m - 1 / 2"
    then have gt: "of_int m - 1 / 2 < n" by simp
    then have "of_int (m - 1) \<le> n" by simp
    then have f1: "m - 1 \<le> \<lfloor>n\<rfloor>" by (simp only: le_floor_iff)
    have "\<lfloor>n\<rfloor> \<le> roundHalfEven n" by (simp add: roundHalfEven_def Let_def)
    with lt f1 have f: "\<lfloor>n\<rfloor> = m - 1" by linarith
    then have "1 / 2 < n - of_int \<lfloor>n\<rfloor>" using gt by simp
    then have "roundHalfEven n = \<lfloor>n\<rfloor> + 1"
      by (simp add: roundHalfEven_def Let_def)
    with f lt show False by simp
  qed
next
  assume le: "n \<le> of_int m - 1 / 2"
  then have "n < of_int m" by simp
  then have fm: "\<lfloor>n\<rfloor> < m" by (simp only: floor_less_iff)
  show "roundHalfEven n < m"
  proof (cases "\<lfloor>n\<rfloor> = m - 1")
    case True
    then have ev: "even \<lfloor>n\<rfloor>" using assms by simp
    have "n - of_int \<lfloor>n\<rfloor> \<le> 1 / 2" using le True by simp
    then have "roundHalfEven n = \<lfloor>n\<rfloor>"
      using ev by (auto simp: roundHalfEven_def Let_def)
    with fm show ?thesis by simp
  next
    case False
    with fm have "\<lfloor>n\<rfloor> + 1 < m" by linarith
    moreover have "roundHalfEven n \<le> \<lfloor>n\<rfloor> + 1"
      by (simp add: roundHalfEven_def Let_def)
    ultimately show ?thesis by linarith
  qed
qed

lemma roundHalfEven_nonneg: "0 \<le> n \<Longrightarrow> 0 \<le> roundHalfEven n"
  using roundHalfEven_ge [of 0 n] by simp

lemma double_pos_eq:
  "0 < x \<Longrightarrow>
   double x = of_int (roundHalfEven (x / pow2 (max (exponent x) (- 1022) - 52)))
              * pow2 (max (exponent x) (- 1022) - 52)"
  by (simp add: double_def Let_def)

lemma abs_double: "\<bar>double x\<bar> = double \<bar>x\<bar>"
proof (cases "x = 0")
  case True
  then show ?thesis by (simp add: double_def)
next
  case False
  let ?q = "pow2 (max (exponent \<bar>x\<bar>) (- 1022) - 52)"
  have "0 \<le> \<bar>x\<bar> / ?q" using pow2_pos [of "max (exponent \<bar>x\<bar>) (- 1022) - 52"] by simp
  then have "0 \<le> roundHalfEven (\<bar>x\<bar> / ?q)" by (rule roundHalfEven_nonneg)
  then have "0 \<le> (of_int (roundHalfEven (\<bar>x\<bar> / ?q)) :: rat)" by simp
  then have nn: "0 \<le> (of_int (roundHalfEven (\<bar>x\<bar> / ?q)) :: rat) * ?q"
    using pow2_pos [of "max (exponent \<bar>x\<bar>) (- 1022) - 52"] by simp
  have "double x = sgn x * (of_int (roundHalfEven (\<bar>x\<bar> / ?q)) * ?q)"
    using False by (simp add: double_def Let_def)
  then have "\<bar>double x\<bar> = \<bar>sgn x\<bar> * \<bar>of_int (roundHalfEven (\<bar>x\<bar> / ?q)) * ?q\<bar>"
    by (simp only: abs_mult)
  also have "\<dots> = of_int (roundHalfEven (\<bar>x\<bar> / ?q)) * ?q"
    using False nn by (simp only: abs_sgn_eq abs_of_nonneg if_False mult_1)
  finally have "\<bar>double x\<bar> = of_int (roundHalfEven (\<bar>x\<bar> / ?q)) * ?q" .
  moreover have "double \<bar>x\<bar> = of_int (roundHalfEven (\<bar>x\<bar> / ?q)) * ?q"
    using False by (simp add: double_def Let_def)
  ultimately show ?thesis by simp
qed

text \<open>Evaluating \<open>double\<close> on numerals.\<close>

lemma floor_rat_numeral_div:
  "\<lfloor>(numeral a :: rat) / numeral b\<rfloor> = numeral a div numeral b"
  by (metis floor_divide_of_int_eq of_int_numeral)

lemma ceiling_rat_numeral_div:
  "\<lceil>(numeral a :: rat) / numeral b\<rceil> = - (- numeral a div numeral b)"
  by (metis ceiling_def floor_divide_of_int_eq minus_divide_left of_int_minus of_int_numeral)

lemmas double_eval =
  double_def exponent_def roundHalfEven_def pow2_def Let_def compute_floorlog
  floor_rat_numeral_div ceiling_rat_numeral_div

lemma double_one_cent: "double (1 / 100) = 5764607523034235 / 2 ^ 59"
  by (simp add: double_eval)

text \<open>
  Further values: one tenth; a number that a double holds exactly; the two ties just
  above \<open>2 ^ 53\<close>, which go to the even neighbour; and the computed differences of
  doubles one cent apart as decimals.
\<close>

lemma double_examples:
  "double (1 / 10) = 3602879701896397 / 2 ^ 55"
  "double 150 = 150"
  "double (2 ^ 53 + 1) = 2 ^ 53"
  "double (2 ^ 53 + 3) = 2 ^ 53 + 4"
  "double (double 0.06 - double 0.05) = 720575940379279 / 2 ^ 56"
  "double (double 8524798.72 - double 8524798.71) = 5368709 / 2 ^ 29"
  "double (double 1.01 - double 1) = 45035996273705 / 2 ^ 52"
  "double (double 0.01 - 0) = double 0.01"
  by (simp_all add: double_eval)

text \<open>
  When a rounded number is below the double 0.01. That double is
  \<open>5764607523034235 / 2 ^ 59\<close>, a little above 1/100, with an odd significand; the doubles
  next to it are \<open>2 ^ -59\<close> apart, and the midpoint below it rounds down. So the rounded
  number is below the double 0.01 exactly when the number itself is at most that
  midpoint, \<open>11529215046068469 / 2 ^ 60\<close> (0.00999999999999999934...).
\<close>

lemma double_less_cent_pos:
  assumes "0 < x"
  shows "double x < 5764607523034235 / 2 ^ 59 \<longleftrightarrow> x \<le> 11529215046068469 / 2 ^ 60"
proof -
  let ?e = "max (exponent x) (- 1022)"
  let ?q = "pow2 (?e - 52)"
  have qpos: "0 < ?q" by (rule pow2_pos)
  have eb: "pow2 (exponent x) \<le> x" "x < pow2 (exponent x + 1)"
    using exponent_bounds [OF assms] by simp_all
  have d: "double x = of_int (roundHalfEven (x / ?q)) * ?q"
    using assms by (rule double_pos_eq)
  have p7: "pow2 (- 7) = 1 / 2 ^ 7" and p6: "pow2 (- 6) = 1 / 2 ^ 6"
    by (simp_all add: pow2_def)
  consider (small) "x < pow2 (- 7)" | (mid) "pow2 (- 7) \<le> x" "x < pow2 (- 6)"
    | (large) "pow2 (- 6) \<le> x"
    by linarith
  then show ?thesis
  proof cases
    case small
    then have "pow2 (exponent x) < pow2 (- 7)" using eb(1) by linarith
    then have "exponent x < - 7" by (rule pow2_less_cancel)
    then have e8: "?e \<le> - 8" by simp
    have "x < pow2 (?e + 1)"
      using eb(2) pow2_mono [of "exponent x + 1" "?e + 1"] by simp
    also have "pow2 (?e + 1) = pow2 (53 + (?e - 52))"
      by (rule arg_cong [where f = pow2]) simp
    also have "\<dots> = pow2 53 * ?q" by (rule pow2_add)
    finally have "x / ?q < pow2 53" using qpos by (simp add: field_simps)
    then have "x / ?q < of_int (2 ^ 53)" by (simp add: pow2_def)
    then have "roundHalfEven (x / ?q) \<le> 2 ^ 53" by (rule roundHalfEven_le)
    then have "(of_int (roundHalfEven (x / ?q)) :: rat) \<le> of_int (2 ^ 53)"
      by (simp only: of_int_le_iff)
    then have "double x \<le> of_int (2 ^ 53) * ?q"
      unfolding d using qpos by (simp only: mult_le_cancel_right_pos)
    also have "of_int (2 ^ 53) * ?q = pow2 53 * ?q" by (simp add: pow2_def)
    also have "\<dots> = pow2 (53 + (?e - 52))" by (rule pow2_add [symmetric])
    also have "\<dots> = pow2 (?e + 1)"
      by (rule arg_cong [where f = pow2]) simp
    also have "\<dots> \<le> pow2 (- 7)" using e8 by (intro pow2_mono) simp
    finally have "double x \<le> 1 / 2 ^ 7" unfolding p7 .
    moreover have "x < 1 / 2 ^ 7" using small unfolding p7 .
    ultimately show ?thesis by simp
  next
    case mid
    have "pow2 (exponent x) < pow2 (- 6)" using eb(1) mid(2) by linarith
    then have "exponent x < - 6" by (rule pow2_less_cancel)
    moreover have "pow2 (- 7) < pow2 (exponent x + 1)" using eb(2) mid(1) by linarith
    then have "- 7 < exponent x + 1" by (rule pow2_less_cancel)
    ultimately have "exponent x = - 7" by linarith
    then have q: "?q = 1 / 2 ^ 59" by (simp add: pow2_def)
    have "double x < 5764607523034235 / 2 ^ 59
        \<longleftrightarrow> roundHalfEven (x * 2 ^ 59) < 5764607523034235"
      unfolding d q by (simp add: field_simps)
    also have "\<dots> \<longleftrightarrow> x * 2 ^ 59 \<le> of_int 5764607523034235 - 1 / 2"
      by (rule roundHalfEven_less_odd) simp
    also have "\<dots> \<longleftrightarrow> x \<le> 11529215046068469 / 2 ^ 60"
      by (simp add: field_simps)
    finally show ?thesis .
  next
    case large
    have "pow2 (- 6) < pow2 (exponent x + 1)" using eb(2) large by linarith
    then have "- 6 < exponent x + 1" by (rule pow2_less_cancel)
    then have e6: "- 6 \<le> exponent x" by simp
    then have e: "?e = exponent x" by simp
    have "pow2 (exponent x) = pow2 (52 + (?e - 52))"
      unfolding e by (rule arg_cong [where f = pow2]) simp
    also have "\<dots> = pow2 52 * ?q" by (rule pow2_add)
    finally have split: "pow2 (exponent x) = pow2 52 * ?q" .
    then have "pow2 52 * ?q \<le> x" using eb(1) by simp
    then have "pow2 52 \<le> x / ?q" using qpos by (simp add: field_simps)
    then have "of_int (2 ^ 52) \<le> x / ?q" by (simp add: pow2_def)
    then have "2 ^ 52 \<le> roundHalfEven (x / ?q)" by (rule roundHalfEven_ge)
    then have "(of_int (2 ^ 52) :: rat) \<le> of_int (roundHalfEven (x / ?q))"
      by (simp only: of_int_le_iff)
    then have "of_int (2 ^ 52) * ?q \<le> double x"
      unfolding d using qpos by (simp only: mult_le_cancel_right_pos)
    moreover have "of_int (2 ^ 52) * ?q = pow2 (exponent x)"
      unfolding split by (simp add: pow2_def)
    moreover have "pow2 (- 6) \<le> pow2 (exponent x)" using e6 by (rule pow2_mono)
    ultimately have "1 / 2 ^ 6 \<le> double x" unfolding p6 by linarith
    moreover have "1 / 2 ^ 6 \<le> x" using large unfolding p6 .
    ultimately show ?thesis by simp
  qed
qed

lemma double_less_cent:
  "\<bar>double x\<bar> < double (1 / 100) \<longleftrightarrow> \<bar>x\<bar> \<le> 11529215046068469 / 2 ^ 60"
proof (cases "x = 0")
  case True
  have z: "double 0 = 0" by (simp add: double_def)
  show ?thesis unfolding True double_one_cent z by simp
next
  case False
  then have "0 < \<bar>x\<bar>" by simp
  then show ?thesis
    unfolding abs_double double_one_cent by (rule double_less_cent_pos)
qed

section \<open>The balance check of Step 3\<close>

text \<open>
  C4 (as amended). The balance check is computed from whatever final values there are,
  a total that is absent or \<open>null\<close> counting as 0. It reports balanced exactly when the
  difference of Total Assets and Total Liabilities and Equity, as the subtraction of
  doubles computes it, is in absolute value strictly less than the double 0.01; in
  terms of the two totals, exactly when the absolute value of their exact difference
  is at most \<open>11529215046068469 / 2 ^ 60\<close>. A computed difference equal to the double
  0.01 is reported as an imbalance.
\<close>

theorem isBalanced_iff_strictly_within_a_cent:
  "(isBalanced finalValues \<longleftrightarrow>
      \<bar>double
         ((case balance_sheet finalValues ''Total Assets'' of
             Some (Some a) \<Rightarrow> a | Some None \<Rightarrow> 0 | None \<Rightarrow> 0)
          - (case balance_sheet finalValues ''Total Liabilities and Equity'' of
               Some (Some l) \<Rightarrow> l | Some None \<Rightarrow> 0 | None \<Rightarrow> 0))\<bar>
      < double (1 / 100))
   \<and> (isBalanced finalValues \<longleftrightarrow>
      \<bar>(case balance_sheet finalValues ''Total Assets'' of
           Some (Some a) \<Rightarrow> a | Some None \<Rightarrow> 0 | None \<Rightarrow> 0)
       - (case balance_sheet finalValues ''Total Liabilities and Equity'' of
            Some (Some l) \<Rightarrow> l | Some None \<Rightarrow> 0 | None \<Rightarrow> 0)\<bar>
      \<le> 11529215046068469 / 2 ^ 60)"
proof -
  have unfolded: "isBalanced finalValues \<longleftrightarrow>
      \<bar>double
         ((case balance_sheet finalValues ''Total Assets'' of
             Some (Some a) \<Rightarrow> a | Some None \<Rightarrow> 0 | None \<Rightarrow> 0)
          - (case balance_sheet finalValues ''Total Liabilities and Equity'' of
               Some (Some l) \<Rightarrow> l | Some None \<Rightarrow> 0 | None \<Rightarrow> 0))\<bar>
      < double (1 / 100)"
    by (simp only: isBalanced_def balanceDiff_def totalAssets_def totalLE_def orZero_def)
  show ?thesis
    using unfolded by (simp only: double_less_cent simp_thms)
qed

text \<open>
  C4 as stated fails at the tolerance itself. With Total Assets of 0.01 and no Total
  Liabilities and Equity the computed difference is the double 0.01, which is at most
  the tolerance, and the check reports an imbalance.
\<close>

theorem isBalanced_at_one_cent_counterexample:
  "totalAssets (buildFinalValues one_cent_state None) = double (1 / 100)
   \<and> totalLE (buildFinalValues one_cent_state None) = 0
   \<and> \<bar>balanceDiff (buildFinalValues one_cent_state None)\<bar> \<le> double (1 / 100)
   \<and> \<not> isBalanced (buildFinalValues one_cent_state None)"
proof -
  have a: "totalAssets (buildFinalValues one_cent_state None) = double (1 / 100)"
    by (simp add: totalAssets_def orZero_def buildFinalValues_def Let_def
          valuesOrEmpty_def isLayer2_def bsLayer2_def one_cent_state_def one_cent_bs_def
          defaultState_def)
  have l: "totalLE (buildFinalValues one_cent_state None) = 0"
    by (simp add: totalLE_def orZero_def buildFinalValues_def Let_def
          valuesOrEmpty_def isLayer2_def bsLayer2_def one_cent_state_def one_cent_bs_def
          defaultState_def)
  have d: "balanceDiff (buildFinalValues one_cent_state None) = double (1 / 100)"
    unfolding balanceDiff_def a l double_one_cent by (simp add: double_eval)
  show ?thesis
    unfolding isBalanced_def d a l by (simp add: double_one_cent)
qed

text \<open>
  The same in exact terms: with Total Assets the double 0.01 and Total Liabilities and
  Equity of \<open>2 ^ -61\<close>, the exact difference of the two totals is below 1/100, the
  computed difference is the double 0.01, and the check reports an imbalance.
\<close>

lemma imbalance_below_one_cent:
  "\<bar>double (1 / 100) - 1 / 2 ^ 61\<bar> \<le> 1 / 100"
  "double (1 / 2 ^ 61) = 1 / 2 ^ 61"
  "balanceDiff (totals (double (1 / 100)) (1 / 2 ^ 61)) = double (1 / 100)"
  "\<not> isBalanced (totals (double (1 / 100)) (1 / 2 ^ 61))"
  by (simp_all add: isBalanced_def balanceDiff_def totalAssets_def totalLE_def orZero_def
        totals_def double_eval)

text \<open>
  Some totals: the two totals of the mock balance sheet; totals that differ by one cent
  as decimals and whose doubles differ by less (0.06 and 0.05, 8524798.72 and
  8524798.71) or by more (1.01 and 1); and one cent against nothing.
\<close>

lemma balance_examples:
  "isBalanced (totals (double 8524798.71) (double 8524798.71))"
  "isBalanced (totals (double 0.06) (double 0.05))"
  "isBalanced (totals (double 8524798.72) (double 8524798.71))"
  "\<not> isBalanced (totals (double 1.01) (double 1))"
  "\<not> isBalanced (totals (double 0.01) 0)"
  by (simp_all add: isBalanced_def balanceDiff_def totalAssets_def totalLE_def orZero_def
        totals_def double_eval)

section \<open>Flags and corrections in the two views\<close>

text \<open>
  Step 3 clears the flag of a corrected field: no row of its table that is marked
  flagged carries the name of a corrected field, and the count of remaining flags
  leaves out the corrected fields.
\<close>

lemma step3_flag_cleared_by_correction:
  "row \<in> set (buildRows fmt s t) \<Longrightarrow> flagged row \<Longrightarrow> label row \<notin> correctedFieldNames s"
  by (auto simp: buildRows_def Let_def fieldRow3_def statementHeaderRow3_def
        sectionHeader3_def headerRow3_def checkRow3_def split: option.splits if_splits)

lemma flaggedRemaining_counts_uncorrected:
  "flaggedRemaining s =
     card {f \<in> set (flaggedOrEmpty (isLayer2 s)) \<union> set (flaggedOrEmpty (bsLayer2 s)).
            f \<notin> fieldName ` set (corrections s)}"
proof -
  have d: "distinct (filter (\<lambda>f. f \<notin> correctedFieldNames s) (allFlaggedFields s))"
    by (simp add: allFlaggedFields_def)
  have "flaggedRemaining s
      = card (set (filter (\<lambda>f. f \<notin> correctedFieldNames s) (allFlaggedFields s)))"
    unfolding flaggedRemaining_def using distinct_card [OF d] by simp
  also have "set (filter (\<lambda>f. f \<notin> correctedFieldNames s) (allFlaggedFields s))
      = {f \<in> set (flaggedOrEmpty (isLayer2 s)) \<union> set (flaggedOrEmpty (bsLayer2 s)).
            f \<notin> fieldName ` set (corrections s)}"
    by (auto simp: allFlaggedFields_def correctedFieldNames_def)
  finally show ?thesis .
qed

text \<open>Step 2 computes the flag of a row from the Layer 2 result alone.\<close>

lemma step2_flag_ignores_corrections:
  "isFlagged (fieldRow2 fmt layer2 corrs field) = isFlagged (fieldRow2 fmt layer2 [] field)"
  by (simp add: fieldRow2_def Let_def)

lemma corrections_sample_state_corrected:
  "corrections sample_state_corrected = [withTimestamp cash_150 ''2024-04-01T09:05:00.000Z'']"
  by (simp add: sample_state_corrected_def handleSaveCorrection_def addCorrection_def
        Let_def sample_state_def defaultState_def)

lemma layer2_sample_state_corrected:
  "isLayer2 sample_state_corrected = Some sample_is"
  "bsLayer2 sample_state_corrected = Some sample_bs"
  by (simp_all add: sample_state_corrected_def handleSaveCorrection_def addCorrection_def
        Let_def sample_state_def defaultState_def isLayer2_def bsLayer2_def)

lemma fieldRow2_in_templateRows:
  assumes "sec \<in> set (bsSections t)" and "field \<in> set (sectionFields sec)"
  shows "fieldRow2 fmt (bsLayer2 s) (corrections s) field \<in> set (templateRows fmt s t)"
  using assms by (auto simp: templateRows_def buildTemplateRows_def)

lemma cash_in_fallback:
  "\<lparr> header = None, sectionFields = BS_TEMPLATE_FIELDS \<rparr> \<in> set (bsSections None)"
  "''Cash & Cash Equivalents'' \<in> set BS_TEMPLATE_FIELDS"
  by (simp_all add: bsSections_def fallbackBs_def BS_TEMPLATE_FIELDS_def)

text \<open>
  C5, evaluated where Step 2 departs from it. In the sample state Layer 2 flagged the
  cash line, and the analyst has saved a correction for it. The row that Step 2 gives to
  the table for this field is still shown with the badge "flagged" (next to "edited"),
  whereas Step 3 shows the same field without the flag and counts no remaining flag.
\<close>

theorem step2_still_shows_flag_after_correction:
  "fieldRow2 fmt (bsLayer2 sample_state_corrected) (corrections sample_state_corrected)
       ''Cash & Cash Equivalents'' \<in> set (templateRows fmt sample_state_corrected None)
   \<and> showsFlaggedBadge2
        (fieldRow2 fmt (bsLayer2 sample_state_corrected) (corrections sample_state_corrected)
           ''Cash & Cash Equivalents'')
   \<and> showsEditedBadge2
        (fieldRow2 fmt (bsLayer2 sample_state_corrected) (corrections sample_state_corrected)
           ''Cash & Cash Equivalents'')
   \<and> \<not> showsFlaggedBadge3
        (fieldRow3 fmt sample_state_corrected
           (balance_sheet (buildFinalValues sample_state_corrected None))
           ''Cash & Cash Equivalents'')
   \<and> flaggedRemaining sample_state = 1
   \<and> flaggedRemaining sample_state_corrected = 0"
proof (intro conjI)
  show "fieldRow2 fmt (bsLayer2 sample_state_corrected) (corrections sample_state_corrected)
       ''Cash & Cash Equivalents'' \<in> set (templateRows fmt sample_state_corrected None)"
    using fieldRow2_in_templateRows [OF cash_in_fallback(1), of "''Cash & Cash Equivalents''"]
      cash_in_fallback(2)
    by simp
  show "showsFlaggedBadge2
        (fieldRow2 fmt (bsLayer2 sample_state_corrected) (corrections sample_state_corrected)
           ''Cash & Cash Equivalents'')"
    by (simp add: showsFlaggedBadge2_def fieldRow2_def Let_def layer2_sample_state_corrected
          sample_bs_def)
  show "showsEditedBadge2
        (fieldRow2 fmt (bsLayer2 sample_state_corrected) (corrections sample_state_corrected)
           ''Cash & Cash Equivalents'')"
    by (simp add: showsEditedBadge2_def fieldRow2_def Let_def layer2_sample_state_corrected
          corrections_sample_state_corrected withTimestamp_def cash_150_def)
  show "\<not> showsFlaggedBadge3
        (fieldRow3 fmt sample_state_corrected
           (balance_sheet (buildFinalValues sample_state_corrected None))
           ''Cash & Cash Equivalents'')"
    by (simp add: showsFlaggedBadge3_def fieldRow3_def Let_def correctedFieldNames_def
          corrections_sample_state_corrected withTimestamp_def cash_150_def)
  show "flaggedRemaining sample_state = 1"
    by (simp add: flaggedRemaining_def allFlaggedFields_def flaggedOrEmpty_def
          correctedFieldNames_def isLayer2_def bsLayer2_def sample_state_def
          defaultState_def sample_is_def sample_bs_def)
  show "flaggedRemaining sample_state_corrected = 0"
    by (simp add: flaggedRemaining_def allFlaggedFields_def flaggedOrEmpty_def
          correctedFieldNames_def layer2_sample_state_corrected
          corrections_sample_state_corrected sample_is_def sample_bs_def
          withTimestamp_def cash_150_def)
qed

section \<open>The correction form saves only a number with a reason\<close>

lemma dropWhile_all_iff:
  "(\<forall>x \<in> set (dropWhile P xs). P x) \<longleftrightarrow> dropWhile P xs = []"
proof (cases "dropWhile P xs")
  case Nil
  then show ?thesis by (simp del: dropWhile_eq_Nil_conv)
next
  case (Cons y ys)
  then have "\<not> P y"
    using hd_dropWhile [of P xs] by simp
  with Cons show ?thesis by auto
qed

lemma trim_empty_iff: "trim str = [] \<longleftrightarrow> (\<forall>ch \<in> set str. isWhiteSpace ch)"
proof -
  have "trim str = [] \<longleftrightarrow> dropWhile isWhiteSpace (rev (dropWhile isWhiteSpace str)) = []"
    by (simp add: trim_def)
  also have "\<dots> \<longleftrightarrow> (\<forall>ch \<in> set (dropWhile isWhiteSpace str). isWhiteSpace ch)"
    by (simp only: dropWhile_eq_Nil_conv set_rev)
  also have "\<dots> \<longleftrightarrow> dropWhile isWhiteSpace str = []"
    by (rule dropWhile_all_iff)
  also have "\<dots> \<longleftrightarrow> (\<forall>ch \<in> set str. isWhiteSpace ch)"
    by (simp only: dropWhile_eq_Nil_conv)
  finally show ?thesis .
qed

lemma handleSave_Some_iff:
  "snd (handleSave pf fname l2 form) \<noteq> None \<longleftrightarrow>
     truthy fname \<and> pf (correctedValueText form) \<noteq> None \<and> trim (correctionReasoning form) \<noteq> []"
  by (auto simp: handleSave_def truthy_def split: option.splits)

text \<open>
  C7. \<open>handleSave\<close> hands a correction to \<open>onSaveCorrection\<close> exactly when a field is
  selected, the text of the value parses as a number and the reasoning has a character
  that is not white space; when the value does not parse or the reasoning is blank, no
  correction is produced and pressing "Save Correction" leaves the wizard state as it
  was.
\<close>

theorem handleSave_requires_number_and_reasoning:
  "(snd (handleSave pf fname l2 form) \<noteq> None \<longleftrightarrow>
      truthy fname \<and> pf (correctedValueText form) \<noteq> None
      \<and> (\<exists>ch \<in> set (correctionReasoning form). \<not> isWhiteSpace ch))
   \<and> (pf (correctedValueText form) = None
        \<or> (\<forall>ch \<in> set (correctionReasoning form). isWhiteSpace ch) \<longrightarrow>
      snd (handleSave pf fname l2 form) = None
      \<and> saveCorrectionClicked pf now api t form s = s)"
proof (intro conjI impI)
  show "snd (handleSave pf fname l2 form) \<noteq> None \<longleftrightarrow>
      truthy fname \<and> pf (correctedValueText form) \<noteq> None
      \<and> (\<exists>ch \<in> set (correctionReasoning form). \<not> isWhiteSpace ch)"
    by (simp only: handleSave_Some_iff trim_empty_iff) blast
next
  assume "pf (correctedValueText form) = None
        \<or> (\<forall>ch \<in> set (correctionReasoning form). isWhiteSpace ch)"
  then have bad: "pf (correctedValueText form) = None \<or> trim (correctionReasoning form) = []"
    by (simp add: trim_empty_iff)
  then have none: "\<And>fn l. snd (handleSave pf fn l form) = None"
    using handleSave_Some_iff [of pf _ _ form] by blast
  show "snd (handleSave pf fname l2 form) = None" by (rule none)
  show "saveCorrectionClicked pf now api t form s = s"
    by (simp add: saveCorrectionClicked_def none)
qed


theorem handleSave_requires_number_and_reasoning_witness:
  "list_all isWhiteSpace (correctionReasoning form_blank_reasoning)
   \<and> snd (handleSave sample_parseFloat (selectedCell sample_state_selected)
          (activeLayer2 sample_state_selected None) form_blank_reasoning) = None
   \<and> saveCorrectionClicked sample_parseFloat ''2024-04-01T09:05:00.000Z'' Resolved None
         form_blank_reasoning sample_state_selected = sample_state_selected
   \<and> sample_parseFloat (correctedValueText form_no_number) = None
   \<and> saveCorrectionClicked sample_parseFloat ''2024-04-01T09:05:00.000Z'' Resolved None
         form_no_number sample_state_selected = sample_state_selected
   \<and> snd (handleSave sample_parseFloat (selectedCell sample_state_selected)
          (activeLayer2 sample_state_selected None) form_complete) \<noteq> None"
proof -
  have blank: "\<forall>ch \<in> set (correctionReasoning form_blank_reasoning). isWhiteSpace ch"
    by (simp add: form_blank_reasoning_def isWhiteSpace_def)
  have nan: "sample_parseFloat (correctedValueText form_no_number) = None"
    by (simp add: form_no_number_def sample_parseFloat_def)
  have sel: "truthy (selectedCell sample_state_selected)"
    by (simp add: truthy_def sample_state_selected_def setSelectedCell_def)
  have num: "sample_parseFloat (correctedValueText form_complete) \<noteq> None"
    by (simp add: form_complete_def sample_parseFloat_def)
  have nonblank: "\<exists>ch \<in> set (correctionReasoning form_complete). \<not> isWhiteSpace ch"
    by (simp add: form_complete_def isWhiteSpace_def)
  note a = handleSave_requires_number_and_reasoning
    [of sample_parseFloat "selectedCell sample_state_selected"
        "activeLayer2 sample_state_selected None" form_blank_reasoning
        "''2024-04-01T09:05:00.000Z''" Resolved None sample_state_selected]
  note b = handleSave_requires_number_and_reasoning
    [of sample_parseFloat "selectedCell sample_state_selected"
        "activeLayer2 sample_state_selected None" form_no_number
        "''2024-04-01T09:05:00.000Z''" Resolved None sample_state_selected]
  note c = handleSave_requires_number_and_reasoning
    [of sample_parseFloat "selectedCell sample_state_selected"
        "activeLayer2 sample_state_selected None" form_complete]
  from a blank b nan c sel num nonblank show ?thesis
    unfolding list_all_iff by blast
qed

section \<open>Sheet type detection in Step 1 and in Step 2\<close>

lemma toLowerCase_example: "toLowerCase ''Balance Sheet (P&L) IS'' = ''balance sheet (p&l) is''"
  by code_simp

lemma detect_suffix_example: "detectSheetType_Step2 ''FiveIron_IS'' = ''income_statement''"
  by code_simp

lemma detect_keyword_example: "detectSheetType_Step2 ''Monthly P&L'' = ''income_statement''"
  by code_simp

lemma includesStr_iff_sublist: "includesStr str needle \<longleftrightarrow> sublist needle str"
  by (induction str) (simp_all add: sublist_Cons_right)

lemma endsWithSeparatorIS_iff:
  "endsWithSeparatorIS name \<longleftrightarrow>
     (\<exists>pre c1 c2 c3. name = pre @ [c1, c2, c3]
        \<and> c1 \<in> {CHR ''_'', CHR ''-'', CHR '' ''}
        \<and> c2 \<in> {CHR ''i'', CHR ''I''} \<and> c3 \<in> {CHR ''s'', CHR ''S''})"
proof
  assume "endsWithSeparatorIS name"
  then obtain c3 c2 c1 rest where r: "rev name = c3 # c2 # c1 # rest"
    and ok: "(c1 = CHR ''_'' \<or> c1 = CHR ''-'' \<or> c1 = CHR '' '') \<and> isLetterI c2 \<and> isLetterS c3"
    by (auto simp: endsWithSeparatorIS_def split: list.splits)
  from r have "name = rev rest @ [c1, c2, c3]"
    by (simp add: rev_swap)
  with ok show "\<exists>pre c1 c2 c3. name = pre @ [c1, c2, c3]
        \<and> c1 \<in> {CHR ''_'', CHR ''-'', CHR '' ''}
        \<and> c2 \<in> {CHR ''i'', CHR ''I''} \<and> c3 \<in> {CHR ''s'', CHR ''S''}"
    unfolding isLetterI_def isLetterS_def by blast
next
  assume "\<exists>pre c1 c2 c3. name = pre @ [c1, c2, c3]
        \<and> c1 \<in> {CHR ''_'', CHR ''-'', CHR '' ''}
        \<and> c2 \<in> {CHR ''i'', CHR ''I''} \<and> c3 \<in> {CHR ''s'', CHR ''S''}"
  then obtain pre c1 c2 c3 where n: "name = pre @ [c1, c2, c3]"
    and ok: "c1 \<in> {CHR ''_'', CHR ''-'', CHR '' ''}" "c2 \<in> {CHR ''i'', CHR ''I''}"
      "c3 \<in> {CHR ''s'', CHR ''S''}"
    by blast
  have "rev name = c3 # c2 # c1 # rev pre"
    by (simp add: n)
  with ok show "endsWithSeparatorIS name"
    by (auto simp: endsWithSeparatorIS_def isLetterI_def isLetterS_def)
qed

lemma isExactlyIS_iff: "isExactlyIS name \<longleftrightarrow> name \<in> {''is'', ''iS'', ''Is'', ''IS''}"
  by (auto simp: isExactlyIS_def isLetterI_def isLetterS_def split: list.splits)

text \<open>
  C10. The \<open>detectSheetType\<close> of Step 1 returns \<open>income_statement\<close> for every sheet
  name. The \<open>detectSheetType\<close> of Step 2 returns \<open>balance_sheet\<close> exactly for the names
  that match none of its patterns: no keyword occurs in the lower-cased name, the name
  does not end with a separator followed by "is" in either case, and it is not "is"
  itself.
\<close>

theorem detectSheetType_step1_never_balance_sheet:
  "detectSheetType_Step1 name = ''income_statement''
   \<and> (detectSheetType_Step2 name = ''balance_sheet'' \<longleftrightarrow>
        \<not> ((\<exists>kw \<in> {''income'', ''p&l'', ''p_l'', ''profit'', ''pnl'', ''revenue'', ''i/s''}.
               sublist kw (toLowerCase name))
           \<or> (\<exists>pre c1 c2 c3. name = pre @ [c1, c2, c3]
                \<and> c1 \<in> {CHR ''_'', CHR ''-'', CHR '' ''}
                \<and> c2 \<in> {CHR ''i'', CHR ''I''} \<and> c3 \<in> {CHR ''s'', CHR ''S''})
           \<or> name \<in> {''is'', ''iS'', ''Is'', ''IS''}))"
proof
  show "detectSheetType_Step1 name = ''income_statement''"
    by (simp add: detectSheetType_Step1_def)
next
  have "detectSheetType_Step2 name = ''balance_sheet'' \<longleftrightarrow>
      \<not> ((\<exists>kw \<in> {''income'', ''p&l'', ''p_l'', ''profit'', ''pnl'', ''revenue'', ''i/s''}.
               includesStr (toLowerCase name) kw)
           \<or> endsWithSeparatorIS name \<or> isExactlyIS name)"
    by (simp add: detectSheetType_Step2_def Let_def)
  then show "detectSheetType_Step2 name = ''balance_sheet'' \<longleftrightarrow>
        \<not> ((\<exists>kw \<in> {''income'', ''p&l'', ''p_l'', ''profit'', ''pnl'', ''revenue'', ''i/s''}.
               sublist kw (toLowerCase name))
           \<or> (\<exists>pre c1 c2 c3. name = pre @ [c1, c2, c3]
                \<and> c1 \<in> {CHR ''_'', CHR ''-'', CHR '' ''}
                \<and> c2 \<in> {CHR ''i'', CHR ''I''} \<and> c3 \<in> {CHR ''s'', CHR ''S''})
           \<or> name \<in> {''is'', ''iS'', ''Is'', ''IS''})"
    by (simp only: includesStr_iff_sublist endsWithSeparatorIS_iff isExactlyIS_iff)
qed

lemma detect_balance_sheet_name:
  "detectSheetType_Step2 ''Balance Sheet'' = ''balance_sheet''"
  by code_simp

theorem detectSheetType_step1_never_balance_sheet_witness:
  "detectSheetType_Step1 ''Balance Sheet'' = ''income_statement''
   \<and> detectSheetType_Step2 ''Balance Sheet'' = ''balance_sheet''
   \<and> \<not> (\<exists>kw \<in> {''income'', ''p&l'', ''p_l'', ''profit'', ''pnl'', ''revenue'', ''i/s''}.
               sublist kw (toLowerCase ''Balance Sheet''))"
proof -
  note inst = detectSheetType_step1_never_balance_sheet [of "''Balance Sheet''"]
  from inst have one: "detectSheetType_Step1 ''Balance Sheet'' = ''income_statement''"
    by (rule conjunct1)
  from inst have "detectSheetType_Step2 ''Balance Sheet'' = ''balance_sheet'' \<longleftrightarrow>
        \<not> ((\<exists>kw \<in> {''income'', ''p&l'', ''p_l'', ''profit'', ''pnl'', ''revenue'', ''i/s''}.
               sublist kw (toLowerCase ''Balance Sheet''))
           \<or> (\<exists>pre c1 c2 c3. ''Balance Sheet'' = pre @ [c1, c2, c3]
                \<and> c1 \<in> {CHR ''_'', CHR ''-'', CHR '' ''}
                \<and> c2 \<in> {CHR ''i'', CHR ''I''} \<and> c3 \<in> {CHR ''s'', CHR ''S''})
           \<or> ''Balance Sheet'' \<in> {''is'', ''iS'', ''Is'', ''IS''})"
    (is "_ \<longleftrightarrow> \<not> (?A \<or> ?B \<or> ?C)")
    by (rule conjunct2)
  then have "\<not> (?A \<or> ?B \<or> ?C)"
    using detect_balance_sheet_name by (rule iffD1)
  then have "\<not> ?A"
    by (rule contrapos_nn) (rule disjI1)
  with one detect_balance_sheet_name show ?thesis
    by (intro conjI)
qed

end
